theory Spec2Isabelle
  imports Main "HOL-Library.Word"
begin

unbundle bit_operations_syntax

section \<open>Python values used by the guard core\<close>

text \<open>
  A Python \<open>str\<close> is a sequence of Unicode code points, and \<open>len\<close> counts code points.
  The model therefore takes a string to be the list of its code points. The messages of
  the source are Chinese text; they are written below as their code points, with the
  ASCII parts as literals.
\<close>

type_synonym pystr = "nat list"

definition lit :: "string \<Rightarrow> pystr" where
  "lit s = map of_char s"

text \<open>
  \<open>str.strip()\<close> without argument removes leading and trailing white space. The white
  space of \<open>str\<close> is the set of code points for which \<open>str.isspace\<close> holds:
  U+0009..U+000D, U+001C..U+0020, U+0085, U+00A0, U+1680, U+2000..U+200A, U+2028, U+2029,
  U+202F, U+205F and U+3000.
\<close>

definition isspace :: "nat \<Rightarrow> bool" where
  "isspace c \<longleftrightarrow>
     (9 \<le> c \<and> c \<le> 13) \<or> (28 \<le> c \<and> c \<le> 32) \<or> c = 133 \<or> c = 160 \<or> c = 5760 \<or>
     (8192 \<le> c \<and> c \<le> 8202) \<or> c = 8232 \<or> c = 8233 \<or> c = 8239 \<or> c = 8287 \<or> c = 12288"

definition strip :: "pystr \<Rightarrow> pystr" where
  "strip s = rev (dropWhile isspace (rev (dropWhile isspace s)))"

text \<open>
  \<open>x or y\<close> on strings: the first operand when it is non-empty, the second otherwise.
\<close>

definition or_str :: "pystr \<Rightarrow> pystr \<Rightarrow> pystr" where
  "or_str a b = (if a \<noteq> [] then a else b)"

text \<open>
  \<open>str(n)\<close> for an integer: its decimal digits, with a minus sign when negative. CPython
  from 3.11 on refuses, with a \<open>ValueError\<close>, to convert an integer of more than
  \<open>sys.get_int_max_str_digits()\<close> digits (4300 unless the limit is changed or lifted); that
  limit of the interpreter is not modelled, and \<open>str_int\<close> is the conversion itself.
\<close>

function str_nat :: "nat \<Rightarrow> pystr" where
  "str_nat n = (if n < 10 then [48 + n] else str_nat (n div 10) @ [48 + n mod 10])"
  by pat_completeness auto
termination
  by (relation "measure (\<lambda>n. n)") auto

declare str_nat.simps [simp del]

definition str_int :: "int \<Rightarrow> pystr" where
  "str_int i = (if i < 0 then 45 # str_nat (nat (- i)) else str_nat (nat i))"

definition str_bool :: "bool \<Rightarrow> pystr" where
  "str_bool b = (if b then lit ''True'' else lit ''False'')"

text \<open>
  The values that \<open>response.json()\<close> can produce. A float is kept as the 64 bits of its
  IEEE 754 encoding; a dict as the list of its items, whose keys are distinct.
\<close>

datatype json =
    JNull
  | JBool bool
  | JInt int
  | JFloat "64 word"
  | JStr pystr
  | JList "json list"
  | JDict "(pystr \<times> json) list"

type_synonym pydict = "(pystr \<times> json) list"

text \<open>Truth value of a decoded value, as \<open>or\<close> tests it. A float is false when it is +0.0 or -0.0.\<close>

fun truthy :: "json \<Rightarrow> bool" where
  "truthy JNull = False"
| "truthy (JBool b) = b"
| "truthy (JInt i) = (i \<noteq> 0)"
| "truthy (JFloat w) = (w AND 0x7FFFFFFFFFFFFFFF \<noteq> 0)"
| "truthy (JStr s) = (s \<noteq> [])"
| "truthy (JList xs) = (xs \<noteq> [])"
| "truthy (JDict d) = (d \<noteq> [])"

definition or_json :: "json \<Rightarrow> json \<Rightarrow> json" where
  "or_json a b = (if truthy a then a else b)"

text \<open>\<open>d.get(k)\<close> is \<open>None\<close> for a missing key, \<open>d.get(k, default)\<close> the default.\<close>

definition dict_get :: "pydict \<Rightarrow> pystr \<Rightarrow> json \<Rightarrow> json" where
  "dict_get d k dflt = (case map_of d k of None \<Rightarrow> dflt | Some v \<Rightarrow> v)"

text \<open>
  Two functions of the Python runtime are taken as parameters, since their tables are not
  part of the repository: \<open>str.lower\<close> on a string that has a code point outside ASCII
  (the Unicode case mapping), and the text an f-string gives for a float, a list or a
  dict. Every theorem below holds for all values of these parameters.
\<close>

record pyrt =
  unicode_lower :: "pystr \<Rightarrow> pystr"
  format_other :: "json \<Rightarrow> pystr"

definition ascii_lower :: "nat \<Rightarrow> nat" where
  "ascii_lower c = (if 65 \<le> c \<and> c \<le> 90 then c + 32 else c)"

text \<open>\<open>str.lower()\<close>: on an ASCII string, A..Z become a..z and nothing else changes.\<close>

definition lower :: "pyrt \<Rightarrow> pystr \<Rightarrow> pystr" where
  "lower rt s = (if list_all (\<lambda>c. c < 128) s then map ascii_lower s else unicode_lower rt s)"

text \<open>The text that \<open>f"{v}"\<close> inserts for a decoded value.\<close>

definition format_value :: "pyrt \<Rightarrow> json \<Rightarrow> pystr" where
  "format_value rt v =
     (case v of
        JNull \<Rightarrow> lit ''None''
      | JBool b \<Rightarrow> str_bool b
      | JInt i \<Rightarrow> str_int i
      | JStr s \<Rightarrow> s
      | _ \<Rightarrow> format_other rt v)"

text \<open>A runtime for evaluating the model on ASCII inputs, where the parameters are never consulted.\<close>

definition ascii_runtime :: pyrt where
  "ascii_runtime = \<lparr>unicode_lower = map ascii_lower, format_other = (\<lambda>v. lit ''?'')\<rparr>"

section \<open>The data model of core.py\<close>

record guard_context =
  is_group :: bool
  group_id :: "pystr option"
  private_user_id :: "pystr option"

record guard_policy =
  mode :: pystr
  developer_whitelist :: "pystr set"
  allow_force :: bool
  default_dry_run :: bool
  dry_run_override :: "bool option"
  napcat_host :: pystr
  napcat_port :: pystr
  napcat_token :: pystr
  min_reason_length :: int

record guard_result =
  success :: bool
  message :: pystr
  action_type :: pystr
  target_id :: "pystr option"
  source :: pystr
  executed :: bool
  dry_run :: bool

text \<open>\<open>NapcatResult = Tuple[bool, str, NapcatRaw]\<close>, with \<open>NapcatRaw = Optional[Dict[str, Any]]\<close>.\<close>

type_synonym napcat_result = "bool \<times> pystr \<times> pydict option"

section \<open>Exceptions and the HTTP transport\<close>

text \<open>
  The exceptions, by the classes that the \<open>except\<close> clauses of \<open>call_napcat\<close> tell apart:
  an \<open>httpx.TimeoutException\<close>; an \<open>httpx.RequestError\<close> that is not a timeout, carrying
  its text \<open>str(exc)\<close>; a \<open>ValueError\<close>; and an exception of none of these classes
  (\<open>httpx.InvalidURL\<close> and \<open>RecursionError\<close> are such), carrying its text. Functions that can
  raise return \<open>exn + 'a\<close>, \<open>Inl\<close> the exception.
\<close>

datatype exn = TimeoutException | RequestError pystr | ValueError | OtherException pystr

text \<open>
  The response of the server: its status code, and what \<open>response.json()\<close> does when it is
  called: it returns the decoded value, or it raises, a \<open>ValueError\<close> for a body that is
  not JSON, another exception otherwise (a \<open>RecursionError\<close> for a body nested too deeply).
\<close>

record response =
  status_code :: int
  body_json :: "exn + json"

text \<open>
  \<open>client.post(url, json=payload, headers=headers)\<close> on a client created with a timeout of
  10 seconds and \<open>trust_env=False\<close>. What the network answers is a parameter of the model.
\<close>

type_synonym transport = "pystr \<Rightarrow> pydict \<Rightarrow> (pystr \<times> pystr) list \<Rightarrow> exn + response"

text \<open>\<open>NapcatCaller\<close>: host, port, token, action and payload to a result.\<close>

type_synonym napcat_caller = "pystr \<Rightarrow> pystr \<Rightarrow> pystr \<Rightarrow> pystr \<Rightarrow> pydict \<Rightarrow> exn + napcat_result"

text \<open>A transport that gives the same outcome to every request, as a test double does.\<close>

definition mock_transport :: "exn + response \<Rightarrow> transport" where
  "mock_transport outcome url payload headers = outcome"

section \<open>The message texts of the source\<close>

definition msg_unsupported :: pystr where
  "msg_unsupported = [19981, 25903, 25345, 30340, 21160, 20316, 31867, 22411, 58, 32]"

definition msg_not_group :: pystr where
  "msg_not_group = [24403, 21069, 19981, 26159, 32676, 32842, 19978, 19979, 25991, 65292,
     25298, 32477, 25191, 34892, 36864, 32676]"

definition msg_is_group :: pystr where
  "msg_is_group = [24403, 21069, 26159, 32676, 32842, 19978, 19979, 25991, 65292,
     25298, 32477, 25191, 34892, 21024, 22909, 21451]"

definition msg_missing_private :: pystr where
  "msg_missing_private = [24403, 21069, 31169, 32842, 23545, 35937, 32570, 22833, 65292,
     25298, 32477, 25191, 34892, 21024, 22909, 21451]"

definition msg_reason_too_short :: "int \<Rightarrow> pystr" where
  "msg_reason_too_short n =
     [23457, 24910, 27169, 24335, 25298, 32477, 25191, 34892, 65306] @ lit ''reason '' @
     [33267, 23569, 32] @ str_int n @ [32, 20010, 23383, 31526]"

definition msg_force_disabled :: pystr where
  "msg_force_disabled = [24403, 21069, 37197, 32622, 31105, 29992, 20102, 32] @ lit ''force''"

definition msg_force_whitelist :: pystr where
  "msg_force_whitelist = lit ''force '' @
     [20165, 20801, 35768, 24320, 21457, 32773, 30333, 21517, 21333, 20351, 29992]"

definition msg_dry_run :: "pystr \<Rightarrow> pystr \<Rightarrow> pystr \<Rightarrow> bool \<Rightarrow> pystr \<Rightarrow> pystr" where
  "msg_dry_run normalized_action target src force normalized_reason =
     lit ''[dry-run] '' @ [24050, 36890, 36807, 26657, 39564, 65292, 23558, 25191, 34892, 32] @
     normalized_action @ lit '' -> '' @ target @ lit ''; source='' @ src @
     lit ''; force='' @ str_bool force @ lit ''; reason='' @
     or_str normalized_reason (lit ''N/A'')"

definition msg_failed :: "pystr \<Rightarrow> pystr \<Rightarrow> pystr" where
  "msg_failed normalized_action detail =
     [25191, 34892, 32] @ normalized_action @ [32, 22833, 36133, 58, 32] @ detail"

definition msg_done :: "pystr \<Rightarrow> pystr \<Rightarrow> pystr" where
  "msg_done normalized_action target =
     [25191, 34892, 32] @ normalized_action @ [32, 25104, 21151, 65292, 30446, 26631, 61] @ target"

definition msg_timeout :: "pystr \<Rightarrow> pystr" where
  "msg_timeout url = [35831, 27714, 32] @ lit ''NapCat '' @ [36229, 26102, 58, 32] @ url"

definition msg_request_failed :: "pystr \<Rightarrow> pystr" where
  "msg_request_failed e = [35831, 27714, 32] @ lit ''NapCat '' @ [22833, 36133, 58, 32] @ e"

definition msg_auth_failed :: "int \<Rightarrow> pystr" where
  "msg_auth_failed status =
     lit ''NapCat '' @ [37492, 26435, 22833, 36133] @ lit ''(HTTP '' @ str_int status @ lit '')''"

definition msg_http_error :: "int \<Rightarrow> pystr" where
  "msg_http_error status = lit ''NapCat HTTP '' @ [38169, 35823, 58, 32] @ str_int status"

definition msg_not_json :: pystr where
  "msg_not_json = lit ''NapCat '' @ [36820, 22238, 20102, 38750, 32] @ lit ''JSON '' @ [21709, 24212]"

definition msg_bad_format :: pystr where
  "msg_bad_format = lit ''NapCat '' @ [36820, 22238, 26684, 24335, 24322, 24120]"

definition msg_remote_failed :: "pystr \<Rightarrow> pystr \<Rightarrow> pystr \<Rightarrow> pystr" where
  "msg_remote_failed status retcode msg =
     lit ''NapCat '' @ [36820, 22238, 22833, 36133, 58, 32] @ lit ''status='' @ status @
     lit '', retcode='' @ retcode @ lit '', message='' @ msg"

section \<open>The functions of core.py\<close>

definition normalize_reason :: "pystr option \<Rightarrow> pystr" where
  "normalize_reason reason = (case reason of None \<Rightarrow> [] | Some s \<Rightarrow> strip s)"

definition get_effective_dry_run :: "bool \<Rightarrow> bool option \<Rightarrow> bool" where
  "get_effective_dry_run default_dry_run' override =
     (case override of None \<Rightarrow> default_dry_run' | Some b \<Rightarrow> b)"

definition napcat_url :: "pystr \<Rightarrow> pystr \<Rightarrow> pystr \<Rightarrow> pystr" where
  "napcat_url host port action = lit ''http://'' @ host @ lit '':'' @ port @ lit ''/'' @ action"

definition napcat_headers :: "pystr \<Rightarrow> (pystr \<times> pystr) list" where
  "napcat_headers token =
     (lit ''Content-Type'', lit ''application/json'') #
     (if token \<noteq> [] then [(lit ''Authorization'', lit ''Bearer '' @ token)] else [])"

text \<open>
  What \<open>call_napcat\<close> makes of a response that arrived (lines 91 to 109 of core.py). The
  \<open>try\<close> around \<open>response.json()\<close> has one clause, \<open>except ValueError\<close>: an exception of
  another class leaves the function.
\<close>

definition interpret_response :: "pyrt \<Rightarrow> response \<Rightarrow> exn + napcat_result" where
  "interpret_response rt resp =
     (if status_code resp = 401 \<or> status_code resp = 403 then
        Inr (False, msg_auth_failed (status_code resp), None)
      else if status_code resp < 200 \<or> status_code resp \<ge> 300 then
        Inr (False, msg_http_error (status_code resp), None)
      else
        (case body_json resp of
           Inl ValueError \<Rightarrow> Inr (False, msg_not_json, None)
         | Inl TimeoutException \<Rightarrow> Inl TimeoutException
         | Inl (RequestError e) \<Rightarrow> Inl (RequestError e)
         | Inl (OtherException e) \<Rightarrow> Inl (OtherException e)
         | Inr (JDict raw) \<Rightarrow>
             (if map_of raw (lit ''status'') \<noteq> Some (JStr (lit ''ok'')) then
                (let retcode = dict_get raw (lit ''retcode'') (JStr []);
                     msg = or_json (dict_get raw (lit ''message'') JNull)
                             (or_json (dict_get raw (lit ''wording'') JNull) (JStr (lit ''unknown'')))
                 in Inr (False,
                     msg_remote_failed (format_value rt (dict_get raw (lit ''status'') JNull))
                       (format_value rt retcode) (format_value rt msg),
                     Some raw))
              else Inr (True, lit ''ok'', Some raw))
         | Inr _ \<Rightarrow> Inr (False, msg_bad_format, None)))"

definition call_napcat :: "pyrt \<Rightarrow> transport \<Rightarrow> napcat_caller" where
  "call_napcat rt post host port token action payload =
     (let url = napcat_url host port action;
          headers = napcat_headers token
      in case post url payload headers of
           Inl TimeoutException \<Rightarrow> Inr (False, msg_timeout url, None)
         | Inl (RequestError e) \<Rightarrow> Inr (False, msg_request_failed e, None)
         | Inl ValueError \<Rightarrow> Inl ValueError
         | Inl (OtherException e) \<Rightarrow> Inl (OtherException e)
         | Inr resp \<Rightarrow> interpret_response rt resp)"

text \<open>The three normalised strings that \<open>execute_guard_action\<close> computes first.\<close>

definition normalized_action :: "pyrt \<Rightarrow> pystr \<Rightarrow> pystr" where
  "normalized_action rt atype = lower rt (strip (or_str atype []))"

definition normalized_mode :: "pyrt \<Rightarrow> guard_policy \<Rightarrow> pystr" where
  "normalized_mode rt policy = lower rt (strip (or_str (mode policy) (lit ''cautious'')))"

definition rejection :: "pystr \<Rightarrow> pystr \<Rightarrow> pystr option \<Rightarrow> pystr \<Rightarrow> guard_result" where
  "rejection msg atype target src =
     \<lparr>success = False, message = msg, action_type = atype, target_id = target,
      source = src, executed = False, dry_run = False\<rparr>"

text \<open>
  Lines 176 to 252 of \<open>execute_guard_action\<close>: what follows the \<open>if\<close>/\<open>else\<close> that resolves
  the target, with the three variables that both branches assign (\<open>napcat_action\<close>,
  \<open>payload\<close>, \<open>target_id\<close>) as arguments.
\<close>

definition execute_resolved ::
  "pyrt \<Rightarrow> transport \<Rightarrow> pystr \<Rightarrow> pystr \<Rightarrow> pydict \<Rightarrow> pystr \<Rightarrow>
   pystr \<Rightarrow> bool \<Rightarrow> pystr \<Rightarrow> pystr \<Rightarrow> guard_policy \<Rightarrow> napcat_caller option \<Rightarrow>
   exn + guard_result" where
  "execute_resolved rt post action napcat_action payload target actor_user_id force reason src
     policy caller_opt =
     (if normalized_mode rt policy = lit ''cautious'' \<and>
         int (length (normalize_reason (Some reason))) < min_reason_length policy then
        Inr (rejection (msg_reason_too_short (min_reason_length policy)) action (Some target) src)
      else
        let actor = or_str actor_user_id [];
            is_whitelisted = (actor \<in> developer_whitelist policy)
        in
          if force \<and> \<not> allow_force policy then
            Inr (rejection msg_force_disabled action (Some target) src)
          else if force \<and> \<not> is_whitelisted then
            Inr (rejection msg_force_whitelist action (Some target) src)
          else if get_effective_dry_run (default_dry_run policy) (dry_run_override policy) then
            Inr \<lparr>success = True,
                 message = msg_dry_run action target src force (normalize_reason (Some reason)),
                 action_type = action, target_id = Some target, source = src,
                 executed = False, dry_run = True\<rparr>
          else
            let caller = (case caller_opt of None \<Rightarrow> call_napcat rt post | Some c \<Rightarrow> c)
            in case caller (napcat_host policy) (napcat_port policy) (napcat_token policy)
                     napcat_action payload of
                 Inl e \<Rightarrow> Inl e
               | Inr (ok, detail, raw) \<Rightarrow>
                   if \<not> ok then
                     Inr (rejection (msg_failed action detail) action (Some target) src)
                   else
                     Inr \<lparr>success = True, message = msg_done action target,
                          action_type = action, target_id = Some target, source = src,
                          executed = True, dry_run = False\<rparr>)"

definition execute_guard_action ::
  "pyrt \<Rightarrow> transport \<Rightarrow> pystr \<Rightarrow> pystr \<Rightarrow> guard_context \<Rightarrow> bool \<Rightarrow> pystr \<Rightarrow> pystr \<Rightarrow>
   guard_policy \<Rightarrow> napcat_caller option \<Rightarrow> exn + guard_result" where
  "execute_guard_action rt post atype actor_user_id ctx force reason src policy caller_opt =
     (let action = normalized_action rt atype
      in
        if action \<notin> {lit ''leave'', lit ''delete''} then
          Inr (rejection (msg_unsupported @ atype) (or_str action atype) None src)
        else if action = lit ''leave'' then
          (case group_id ctx of
             None \<Rightarrow> Inr (rejection msg_not_group action None src)
           | Some gid \<Rightarrow>
               if \<not> is_group ctx \<or> gid = [] then
                 Inr (rejection msg_not_group action None src)
               else
                 execute_resolved rt post action (lit ''set_group_leave'')
                   [(lit ''group_id'', JStr gid), (lit ''is_dismiss'', JBool False)] gid
                   actor_user_id force reason src policy caller_opt)
        else if is_group ctx then
          Inr (rejection msg_is_group action None src)
        else
          (case private_user_id ctx of
             None \<Rightarrow> Inr (rejection msg_missing_private action None src)
           | Some uid \<Rightarrow>
               if uid = [] then
                 Inr (rejection msg_missing_private action None src)
               else
                 execute_resolved rt post action (lit ''delete_friend'')
                   [(lit ''user_id'', JStr uid)] uid
                   actor_user_id force reason src policy caller_opt))"

section \<open>Two helpers of plugin.py\<close>

text \<open>
  \<open>_build_action_context\<close>, and the policy that \<open>_build_policy\<close> returns for an empty
  configuration while no dry-run override is set.
\<close>

definition build_action_context :: "bool \<Rightarrow> pystr option \<Rightarrow> pystr option \<Rightarrow> guard_context" where
  "build_action_context is_group' group_id' user_id =
     (if is_group' then \<lparr>is_group = True, group_id = group_id', private_user_id = None\<rparr>
      else \<lparr>is_group = False, group_id = None, private_user_id = user_id\<rparr>)"

definition default_policy :: guard_policy where
  "default_policy =
     \<lparr>mode = lit ''cautious'', developer_whitelist = {}, allow_force = True,
      default_dry_run = False, dry_run_override = None, napcat_host = lit ''127.0.0.1'',
      napcat_port = lit ''3000'', napcat_token = [], min_reason_length = 4\<rparr>"

section \<open>The gates, as the specification words them\<close>

text \<open>
  The following predicates are not taken from the code: they state the conditions of the
  specification, so that the theorems can compare them with what \<open>execute_guard_action\<close>
  computes.

  The target of a request: a "leave" in a group context with a non-empty group id resolves
  to that id, a "delete" in a private context with a non-empty user id resolves to that id,
  and nothing else resolves.
\<close>

definition resolves_to :: "pystr \<Rightarrow> guard_context \<Rightarrow> pystr \<Rightarrow> bool" where
  "resolves_to action ctx t \<longleftrightarrow>
     (action = lit ''leave'' \<and> is_group ctx \<and> group_id ctx = Some t \<and> t \<noteq> []) \<or>
     (action = lit ''delete'' \<and> \<not> is_group ctx \<and> private_user_id ctx = Some t \<and> t \<noteq> [])"

text \<open>Gate 4: the mode is "cautious" and the normalised reason is shorter than the minimum.\<close>

definition reason_too_short :: "pyrt \<Rightarrow> guard_policy \<Rightarrow> pystr \<Rightarrow> bool" where
  "reason_too_short rt policy reason \<longleftrightarrow>
     normalized_mode rt policy = lit ''cautious'' \<and>
     int (length (normalize_reason (Some reason))) < min_reason_length policy"

text \<open>Gate 5: force is requested, and it is disabled or the actor is not whitelisted.\<close>

definition force_refused :: "guard_policy \<Rightarrow> pystr \<Rightarrow> bool \<Rightarrow> bool" where
  "force_refused policy actor force \<longleftrightarrow>
     force \<and> (\<not> allow_force policy \<or> actor \<notin> developer_whitelist policy)"

text \<open>All of gates 1 to 5 pass, with target \<open>t\<close>; and: one of them rejects.\<close>

definition gates_pass ::
  "pyrt \<Rightarrow> pystr \<Rightarrow> pystr \<Rightarrow> guard_context \<Rightarrow> bool \<Rightarrow> pystr \<Rightarrow> guard_policy \<Rightarrow> pystr \<Rightarrow> bool" where
  "gates_pass rt atype actor ctx force reason policy t \<longleftrightarrow>
     resolves_to (normalized_action rt atype) ctx t \<and>
     \<not> reason_too_short rt policy reason \<and>
     \<not> force_refused policy actor force"

definition gate_rejects ::
  "pyrt \<Rightarrow> pystr \<Rightarrow> pystr \<Rightarrow> guard_context \<Rightarrow> bool \<Rightarrow> pystr \<Rightarrow> guard_policy \<Rightarrow> bool" where
  "gate_rejects rt atype actor ctx force reason policy \<longleftrightarrow>
     normalized_action rt atype \<notin> {lit ''leave'', lit ''delete''} \<or>
     (\<forall>t. \<not> resolves_to (normalized_action rt atype) ctx t) \<or>
     reason_too_short rt policy reason \<or>
     force_refused policy actor force"

text \<open>
  The remote wire contract: the action name and the payload of each action, and the one
  call that an evaluation makes when it reaches step 8, through the injected caller when
  there is one and through \<open>call_napcat\<close> otherwise.
\<close>

definition napcat_action_of :: "pystr \<Rightarrow> pystr" where
  "napcat_action_of action =
     (if action = lit ''leave'' then lit ''set_group_leave'' else lit ''delete_friend'')"

definition payload_of :: "pystr \<Rightarrow> pystr \<Rightarrow> pydict" where
  "payload_of action t =
     (if action = lit ''leave'' then [(lit ''group_id'', JStr t), (lit ''is_dismiss'', JBool False)]
      else [(lit ''user_id'', JStr t)])"

definition remote_call ::
  "pyrt \<Rightarrow> transport \<Rightarrow> napcat_caller option \<Rightarrow> guard_policy \<Rightarrow> pystr \<Rightarrow> pystr \<Rightarrow>
   exn + napcat_result" where
  "remote_call rt post caller_opt policy action t =
     (case caller_opt of None \<Rightarrow> call_napcat rt post | Some c \<Rightarrow> c)
       (napcat_host policy) (napcat_port policy) (napcat_token policy)
       (napcat_action_of action) (payload_of action t)"

section \<open>Strings and messages\<close>

lemma or_str_Nil: "or_str a [] = a"
  by (simp add: or_str_def)

lemma leave_neq_delete: "lit ''leave'' \<noteq> lit ''delete''"
  by (simp add: lit_def)

lemma strip_Nil: "strip [] = []"
  by (simp add: strip_def)

lemma lower_ascii_literals:
  "lower rt (lit ''leave'') = lit ''leave''"
  "lower rt (lit ''delete'') = lit ''delete''"
  "lower rt (lit ''cautious'') = lit ''cautious''"
  "lower rt (lit ''normal'') = lit ''normal''"
  by (simp_all add: lower_def lit_def ascii_lower_def)

lemma strip_ascii_literals:
  "strip (lit ''leave'') = lit ''leave''"
  "strip (lit ''delete'') = lit ''delete''"
  "strip (lit ''cautious'') = lit ''cautious''"
  "strip (lit ''normal'') = lit ''normal''"
  by (simp_all add: strip_def lit_def isspace_def)

lemma normalized_action_literals:
  "normalized_action rt (lit ''leave'') = lit ''leave''"
  "normalized_action rt (lit ''delete'') = lit ''delete''"
  by (simp_all add: normalized_action_def or_str_Nil strip_ascii_literals lower_ascii_literals)

lemma normalized_mode_empty: "mode policy = [] \<Longrightarrow> normalized_mode rt policy = lit ''cautious''"
  by (simp add: normalized_mode_def or_str_def strip_ascii_literals lower_ascii_literals)

lemma normalized_mode_nonempty:
  "mode policy \<noteq> [] \<Longrightarrow> normalized_mode rt policy = lower rt (strip (mode policy))"
  by (simp add: normalized_mode_def or_str_def)

lemma normalized_mode_literals:
  "mode policy = lit ''cautious'' \<Longrightarrow> normalized_mode rt policy = lit ''cautious''"
  "mode policy = lit ''normal'' \<Longrightarrow> normalized_mode rt policy = lit ''normal''"
  by (simp_all add: normalized_mode_def or_str_def strip_ascii_literals lower_ascii_literals)
     (simp_all add: lit_def)

lemma lit_literals:
  "lit ''strict'' \<noteq> lit ''cautious''" "lit ''strict'' \<noteq> lit ''normal''" "lit ''strict'' \<noteq> []"
  "lit ''normal'' \<noteq> lit ''cautious''" "lit ''normal'' \<noteq> []" "lit ''cautious'' \<noteq> []"
  "lit ''123'' \<noteq> []" "lit ''u1'' \<noteq> []"
  by (simp_all add: lit_def)

lemma normalized_mode_strict:
  "mode policy = lit ''strict'' \<Longrightarrow> normalized_mode rt policy = lit ''strict''"
  by (simp add: normalized_mode_def or_str_def lit_literals)
     (simp add: lit_def strip_def isspace_def lower_def ascii_lower_def)

lemma normalize_reason_empty: "normalize_reason (Some []) = []"
  by (simp add: normalize_reason_def strip_Nil)

lemma str_int_4: "str_int 4 = lit ''4''"
  by (simp add: str_int_def str_nat.simps lit_def)

section \<open>The evaluator, branch by branch\<close>

lemma unsupported_result:
  "normalized_action rt atype \<notin> {lit ''leave'', lit ''delete''} \<Longrightarrow>
   execute_guard_action rt post atype actor ctx force reason src policy c =
     Inr (rejection (msg_unsupported @ atype) (or_str (normalized_action rt atype) atype) None src)"
  by (simp add: execute_guard_action_def Let_def)

lemma leave_mismatch_result:
  "normalized_action rt atype = lit ''leave'' \<Longrightarrow>
   \<not> is_group ctx \<or> group_id ctx = None \<or> group_id ctx = Some [] \<Longrightarrow>
   execute_guard_action rt post atype actor ctx force reason src policy c =
     Inr (rejection msg_not_group (lit ''leave'') None src)"
  by (auto simp: execute_guard_action_def Let_def split: option.splits)

lemma delete_in_group_result:
  "normalized_action rt atype = lit ''delete'' \<Longrightarrow> is_group ctx \<Longrightarrow>
   execute_guard_action rt post atype actor ctx force reason src policy c =
     Inr (rejection msg_is_group (lit ''delete'') None src)"
  using leave_neq_delete by (simp add: execute_guard_action_def Let_def)

lemma delete_no_target_result:
  "normalized_action rt atype = lit ''delete'' \<Longrightarrow> \<not> is_group ctx \<Longrightarrow>
   private_user_id ctx = None \<or> private_user_id ctx = Some [] \<Longrightarrow>
   execute_guard_action rt post atype actor ctx force reason src policy c =
     Inr (rejection msg_missing_private (lit ''delete'') None src)"
  using leave_neq_delete by (auto simp: execute_guard_action_def Let_def split: option.splits)

lemma resolved_result:
  "resolves_to (normalized_action rt atype) ctx t \<Longrightarrow>
   execute_guard_action rt post atype actor ctx force reason src policy c =
     execute_resolved rt post (normalized_action rt atype)
       (napcat_action_of (normalized_action rt atype)) (payload_of (normalized_action rt atype) t) t
       actor force reason src policy c"
  using leave_neq_delete
  by (auto simp: execute_guard_action_def resolves_to_def Let_def napcat_action_of_def payload_of_def)

lemma too_short_result:
  "reason_too_short rt policy reason \<Longrightarrow>
   execute_resolved rt post action na payload t actor force reason src policy c =
     Inr (rejection (msg_reason_too_short (min_reason_length policy)) action (Some t) src)"
  by (simp add: execute_resolved_def reason_too_short_def)

lemma force_disabled_result:
  "\<not> reason_too_short rt policy reason \<Longrightarrow> force \<Longrightarrow> \<not> allow_force policy \<Longrightarrow>
   execute_resolved rt post action na payload t actor force reason src policy c =
     Inr (rejection msg_force_disabled action (Some t) src)"
  by (auto simp: execute_resolved_def reason_too_short_def Let_def)

lemma force_whitelist_result:
  "\<not> reason_too_short rt policy reason \<Longrightarrow> force \<Longrightarrow> allow_force policy \<Longrightarrow>
   actor \<notin> developer_whitelist policy \<Longrightarrow>
   execute_resolved rt post action na payload t actor force reason src policy c =
     Inr (rejection msg_force_whitelist action (Some t) src)"
  by (auto simp: execute_resolved_def reason_too_short_def Let_def or_str_Nil)

lemma dry_run_result:
  "\<not> reason_too_short rt policy reason \<Longrightarrow> \<not> force_refused policy actor force \<Longrightarrow>
   get_effective_dry_run (default_dry_run policy) (dry_run_override policy) \<Longrightarrow>
   execute_resolved rt post action na payload t actor force reason src policy c =
     Inr \<lparr>success = True,
          message = msg_dry_run action t src force (normalize_reason (Some reason)),
          action_type = action, target_id = Some t, source = src,
          executed = False, dry_run = True\<rparr>"
  by (auto simp: execute_resolved_def reason_too_short_def force_refused_def Let_def or_str_Nil)

lemma remote_result:
  "\<not> reason_too_short rt policy reason \<Longrightarrow> \<not> force_refused policy actor force \<Longrightarrow>
   \<not> get_effective_dry_run (default_dry_run policy) (dry_run_override policy) \<Longrightarrow>
   execute_resolved rt post action (napcat_action_of action) (payload_of action t) t actor force
       reason src policy c =
     (case remote_call rt post c policy action t of
        Inl e \<Rightarrow> Inl e
      | Inr (ok, detail, raw) \<Rightarrow>
          if ok then
            Inr \<lparr>success = True, message = msg_done action t, action_type = action,
                 target_id = Some t, source = src, executed = True, dry_run = False\<rparr>
          else Inr (rejection (msg_failed action detail) action (Some t) src))"
  by (auto simp: execute_resolved_def reason_too_short_def force_refused_def Let_def or_str_Nil
      remote_call_def split: sum.splits option.splits)

lemma msg_reason_neq:
  "msg_force_disabled \<noteq> msg_reason_too_short n"
  "msg_force_whitelist \<noteq> msg_reason_too_short n"
  "msg_failed action detail \<noteq> msg_reason_too_short n"
  by (simp_all add: msg_reason_too_short_def msg_force_disabled_def msg_force_whitelist_def
      msg_failed_def lit_def)

lemma msg_force_neq: "msg_force_disabled \<noteq> msg_force_whitelist"
  by (simp add: msg_force_disabled_def msg_force_whitelist_def lit_def)

lemma msg_context_neq: "msg_is_group \<noteq> msg_missing_private"
  by (simp add: msg_is_group_def msg_missing_private_def)

lemma msg_auth_neq_http: "msg_auth_failed s \<noteq> msg_http_error s"
  by (simp add: msg_auth_failed_def msg_http_error_def lit_def)

lemma not_too_short_not_rejected:
  "\<not> reason_too_short rt policy reason \<Longrightarrow>
   execute_resolved rt post action na payload t actor force reason src policy c \<noteq>
     Inr (rejection (msg_reason_too_short (min_reason_length policy)) action (Some t) src)"
  by (auto simp: execute_resolved_def reason_too_short_def Let_def rejection_def msg_reason_neq
      split: sum.splits option.splits)

lemma unresolved_result:
  assumes "normalized_action rt atype \<in> {lit ''leave'', lit ''delete''}"
    and "\<forall>t. \<not> resolves_to (normalized_action rt atype) ctx t"
  shows "\<exists>m. execute_guard_action rt post atype actor ctx force reason src policy c =
     Inr (rejection m (normalized_action rt atype) None src)"
proof (cases "normalized_action rt atype = lit ''leave''")
  case True
  with assms(2) have "\<not> is_group ctx \<or> group_id ctx = None \<or> group_id ctx = Some []"
    by (cases "group_id ctx") (auto simp: resolves_to_def)
  with True show ?thesis
    using leave_mismatch_result by fastforce
next
  case False
  with assms(1) have d: "normalized_action rt atype = lit ''delete''" by simp
  show ?thesis
  proof (cases "is_group ctx")
    case True
    with d show ?thesis using delete_in_group_result by fastforce
  next
    case False
    with d assms(2) have "private_user_id ctx = None \<or> private_user_id ctx = Some []"
      by (cases "private_user_id ctx") (auto simp: resolves_to_def)
    with d False show ?thesis using delete_no_target_result by fastforce
  qed
qed

lemma gate_rejects_result:
  assumes "gate_rejects rt atype actor ctx force reason policy"
  shows "\<exists>m a t. execute_guard_action rt post atype actor ctx force reason src policy c =
     Inr (rejection m a t src)"
proof (cases "normalized_action rt atype \<in> {lit ''leave'', lit ''delete''}")
  case False
  then show ?thesis using unsupported_result by blast
next
  case supported: True
  show ?thesis
  proof (cases "\<exists>t. resolves_to (normalized_action rt atype) ctx t")
    case False
    then show ?thesis using unresolved_result [OF supported] by blast
  next
    case True
    then obtain t where t: "resolves_to (normalized_action rt atype) ctx t" ..
    show ?thesis
    proof (cases "reason_too_short rt policy reason")
      case True
      then show ?thesis
        unfolding resolved_result [OF t] using too_short_result by blast
    next
      case False
      with assms supported t have f: "force_refused policy actor force"
        by (auto simp: gate_rejects_def)
      show ?thesis
      proof (cases "allow_force policy")
        case True
        with f have "force" "actor \<notin> developer_whitelist policy"
          by (auto simp: force_refused_def)
        then show ?thesis
          unfolding resolved_result [OF t] using force_whitelist_result [OF False _ True] by blast
      next
        case no: False
        from f have "force" by (simp add: force_refused_def)
        then show ?thesis
          unfolding resolved_result [OF t] using force_disabled_result [OF False _ no] by blast
      qed
    qed
  qed
qed

lemma gates_pass_result:
  assumes "gates_pass rt atype actor ctx force reason policy t"
  shows "execute_guard_action rt post atype actor ctx force reason src policy c =
     (if get_effective_dry_run (default_dry_run policy) (dry_run_override policy) then
        Inr \<lparr>success = True,
             message = msg_dry_run (normalized_action rt atype) t src force
                         (normalize_reason (Some reason)),
             action_type = normalized_action rt atype, target_id = Some t, source = src,
             executed = False, dry_run = True\<rparr>
      else
        (case remote_call rt post c policy (normalized_action rt atype) t of
           Inl e \<Rightarrow> Inl e
         | Inr (ok, detail, raw) \<Rightarrow>
             if ok then
               Inr \<lparr>success = True, message = msg_done (normalized_action rt atype) t,
                    action_type = normalized_action rt atype, target_id = Some t, source = src,
                    executed = True, dry_run = False\<rparr>
             else Inr (rejection (msg_failed (normalized_action rt atype) detail)
                         (normalized_action rt atype) (Some t) src)))"
proof -
  from assms have t: "resolves_to (normalized_action rt atype) ctx t"
    and r: "\<not> reason_too_short rt policy reason"
    and f: "\<not> force_refused policy actor force"
    by (simp_all add: gates_pass_def)
  show ?thesis
    unfolding resolved_result [OF t]
    using dry_run_result [OF r f] remote_result [OF r f] by simp
qed

lemma execute_resolved_mode:
  assumes "\<not> reason_too_short rt policy reason"
    and "\<not> reason_too_short rt (policy\<lparr>mode := m\<rparr>) reason"
  shows "execute_resolved rt post action na payload t actor force reason src
           (policy\<lparr>mode := m\<rparr>) c =
         execute_resolved rt post action na payload t actor force reason src policy c"
proof -
  from assms(1) have a: "(normalized_mode rt policy = lit ''cautious'' \<and>
      int (length (normalize_reason (Some reason))) < min_reason_length policy) = False"
    by (simp add: reason_too_short_def)
  from assms(2) have b: "(normalized_mode rt (policy\<lparr>mode := m\<rparr>) = lit ''cautious'' \<and>
      int (length (normalize_reason (Some reason))) < min_reason_length policy) = False"
    by (simp add: reason_too_short_def)
  show ?thesis
    by (simp add: execute_resolved_def a b)
qed

lemma execute_resolved_override:
  "dry_run_override policy = Some b \<Longrightarrow>
   execute_resolved rt post action na payload t actor force reason src policy c =
   execute_resolved rt post action na payload t actor force reason src
     (policy\<lparr>default_dry_run := b, dry_run_override := None\<rparr>) c"
  by (simp add: execute_resolved_def get_effective_dry_run_def normalized_mode_def)

lemma execute_guard_action_override:
  "dry_run_override policy = Some b \<Longrightarrow>
   execute_guard_action rt post atype actor ctx force reason src policy c =
   execute_guard_action rt post atype actor ctx force reason src
     (policy\<lparr>default_dry_run := b, dry_run_override := None\<rparr>) c"
  unfolding execute_guard_action_def
  by (simp add: execute_resolved_override [of policy b] cong: option.case_cong if_cong)

section \<open>The invoker\<close>

lemma interpret_response_ok:
  "interpret_response rt resp = Inr (True, detail, raw') \<longleftrightarrow>
   (\<exists>raw. 200 \<le> status_code resp \<and> status_code resp < 300 \<and> body_json resp = Inr (JDict raw) \<and>
      map_of raw (lit ''status'') = Some (JStr (lit ''ok'')) \<and> detail = lit ''ok'' \<and> raw' = Some raw)"
  by (auto simp: interpret_response_def Let_def split: sum.splits exn.splits json.splits)

lemma call_napcat_ok:
  "call_napcat rt post host port token action payload = Inr (True, detail, raw') \<longleftrightarrow>
   (\<exists>resp. post (napcat_url host port action) payload (napcat_headers token) = Inr resp \<and>
      interpret_response rt resp = Inr (True, detail, raw'))"
  by (auto simp: call_napcat_def Let_def split: sum.splits exn.splits)

lemma call_napcat_auth:
  "post (napcat_url host port action) payload (napcat_headers token) = Inr resp \<Longrightarrow>
   status_code resp = 401 \<or> status_code resp = 403 \<Longrightarrow>
   call_napcat rt post host port token action payload =
     Inr (False, msg_auth_failed (status_code resp), None)"
  by (auto simp: call_napcat_def interpret_response_def Let_def)

section \<open>Example requests\<close>

text \<open>Facts about the concrete requests on which the theorems are instantiated.\<close>

lemma example_targets:
  "resolves_to (lit ''leave'') (build_action_context True (Some (lit ''123'')) None) (lit ''123'')"
  "resolves_to (lit ''delete'') (build_action_context False None (Some (lit ''u1''))) (lit ''u1'')"
  "\<not> resolves_to (lit ''delete'') (build_action_context True (Some (lit ''123'')) None) t"
  using leave_neq_delete
  by (auto simp: resolves_to_def build_action_context_def lit_literals)

lemma example_reasons:
  "normalize_reason (Some (lit ''no'')) = lit ''no''"
  "normalize_reason (Some (lit ''abuse'')) = lit ''abuse''"
  "length (lit ''no'') = 2" "length (lit ''abuse'') = 5"
  "strip (lit ''no'') = lit ''no''" "strip (lit ''abuse'') = lit ''abuse''"
  by (simp_all add: normalize_reason_def strip_def lit_def isspace_def)

lemmas example_simps =
  normalized_action_literals normalized_mode_literals normalized_mode_empty normalized_mode_strict
  example_targets example_reasons lit_literals strip_Nil normalize_reason_empty

lemma example_gates:
  "gates_pass ascii_runtime (lit ''leave'') (lit ''dev1'')
     (build_action_context True (Some (lit ''123'')) None) False (lit ''abuse'')
     (default_policy\<lparr>mode := lit ''normal''\<rparr>) (lit ''123'')"
  "gates_pass ascii_runtime (lit ''leave'') (lit ''dev1'')
     (build_action_context True (Some (lit ''123'')) None) False (lit ''abuse'')
     (default_policy\<lparr>mode := lit ''normal'', default_dry_run := True\<rparr>) (lit ''123'')"
  by (simp_all add: gates_pass_def reason_too_short_def force_refused_def example_simps)

section \<open>The claims\<close>

text \<open>
  C1. A "leave" request whose context is not a group, or whose group id is missing or
  empty, is rejected; a "delete" request in a group context is rejected; both whatever
  the actor, the force flag, the reason, the source, the policy and the remote side are.
  For "delete", the rejection in a group context and the rejection for a missing private
  target carry different messages.
\<close>

theorem cross_context_guard:
  "(normalized_action rt atype = lit ''leave'' \<and>
      (\<not> is_group ctx \<or> group_id ctx = None \<or> group_id ctx = Some []) \<longrightarrow>
    execute_guard_action rt post atype actor ctx force reason src policy c =
      Inr \<lparr>success = False, message = msg_not_group, action_type = lit ''leave'',
           target_id = None, source = src, executed = False, dry_run = False\<rparr>) \<and>
   (normalized_action rt atype = lit ''delete'' \<and> is_group ctx \<longrightarrow>
    execute_guard_action rt post atype actor ctx force reason src policy c =
      Inr \<lparr>success = False, message = msg_is_group, action_type = lit ''delete'',
           target_id = None, source = src, executed = False, dry_run = False\<rparr>) \<and>
   (normalized_action rt atype = lit ''delete'' \<and> \<not> is_group ctx \<and>
      (private_user_id ctx = None \<or> private_user_id ctx = Some []) \<longrightarrow>
    execute_guard_action rt post atype actor ctx force reason src policy c =
      Inr \<lparr>success = False, message = msg_missing_private, action_type = lit ''delete'',
           target_id = None, source = src, executed = False, dry_run = False\<rparr>) \<and>
   msg_is_group \<noteq> msg_missing_private"
  using leave_mismatch_result [of rt atype ctx post actor force reason src policy c]
    delete_in_group_result [of rt atype ctx post actor force reason src policy c]
    delete_no_target_result [of rt atype ctx post actor force reason src policy c]
    msg_context_neq
  by (simp add: rejection_def)

theorem cross_context_guard_witness:
  "execute_guard_action ascii_runtime (mock_transport (Inl TimeoutException)) (lit ''leave'')
     (lit ''dev1'') (build_action_context False None (Some (lit ''u1''))) True
     (lit ''flooding the channel'') (lit ''command'') default_policy None =
     Inr \<lparr>success = False, message = msg_not_group, action_type = lit ''leave'',
          target_id = None, source = lit ''command'', executed = False, dry_run = False\<rparr> \<and>
   execute_guard_action ascii_runtime (mock_transport (Inl TimeoutException)) (lit ''delete'')
     (lit ''dev1'') (build_action_context True (Some (lit ''123'')) None) True
     (lit ''flooding the channel'') (lit ''command'') default_policy None =
     Inr \<lparr>success = False, message = msg_is_group, action_type = lit ''delete'',
          target_id = None, source = lit ''command'', executed = False, dry_run = False\<rparr> \<and>
   execute_guard_action ascii_runtime (mock_transport (Inl TimeoutException)) (lit ''delete'')
     (lit ''dev1'') (build_action_context False None None) True
     (lit ''flooding the channel'') (lit ''command'') default_policy None =
     Inr \<lparr>success = False, message = msg_missing_private, action_type = lit ''delete'',
          target_id = None, source = lit ''command'', executed = False, dry_run = False\<rparr>"
  using
    cross_context_guard [of ascii_runtime "lit ''leave''"
      "build_action_context False None (Some (lit ''u1''))"
      "mock_transport (Inl TimeoutException)" "lit ''dev1''" True "lit ''flooding the channel''"
      "lit ''command''" default_policy None]
    cross_context_guard [of ascii_runtime "lit ''delete''"
      "build_action_context True (Some (lit ''123'')) None"
      "mock_transport (Inl TimeoutException)" "lit ''dev1''" True "lit ''flooding the channel''"
      "lit ''command''" default_policy None]
    cross_context_guard [of ascii_runtime "lit ''delete''"
      "build_action_context False None None"
      "mock_transport (Inl TimeoutException)" "lit ''dev1''" True "lit ''flooding the channel''"
      "lit ''command''" default_policy None]
  by (simp add: normalized_action_literals build_action_context_def)

text \<open>
  C2. The claim: for every input the evaluation returns exactly one result and never throws,
  and a rejection at gates 1 to 5 has success, executed and dry-run false. The code does
  not keep the first part. \<open>call_napcat\<close> is written to hand every failure of the request
  back as a result, and \<open>execute_guard_action\<close>, which has no handler of its own, relies on
  that; but the clauses of \<open>call_napcat\<close> miss two cases. The request is guarded by
  \<open>except httpx.TimeoutException\<close> and \<open>except httpx.RequestError\<close>, and httpx raises
  \<open>httpx.InvalidURL\<close>, a direct subclass of \<open>Exception\<close>, for a port that is not a number.
  The decoding is guarded by \<open>except ValueError\<close>, and \<open>response.json()\<close> raises
  \<open>RecursionError\<close> for a body nested too deeply. On both inputs below every gate passes
  (a "leave" in group 123, mode "normal", dry-run off), the built-in invoker is used, and
  the evaluation raises instead of returning a result.
\<close>

theorem evaluate_raises_on_uncaught_exception:
  "execute_guard_action ascii_runtime
     (mock_transport (Inl (OtherException (lit ''InvalidURL''))))
     (lit ''leave'') (lit ''dev1'') (build_action_context True (Some (lit ''123'')) None) False
     (lit ''abuse'') (lit ''planner'')
     (default_policy\<lparr>mode := lit ''normal'', napcat_port := lit ''abc''\<rparr>) None =
     Inl (OtherException (lit ''InvalidURL'')) \<and>
   execute_guard_action ascii_runtime
     (mock_transport
        (Inr \<lparr>status_code = 200, body_json = Inl (OtherException (lit ''RecursionError''))\<rparr>))
     (lit ''leave'') (lit ''dev1'') (build_action_context True (Some (lit ''123'')) None) False
     (lit ''abuse'') (lit ''planner'') (default_policy\<lparr>mode := lit ''normal''\<rparr>) None =
     Inl (OtherException (lit ''RecursionError''))"
proof -
  let ?p = "default_policy\<lparr>mode := lit ''normal'', napcat_port := lit ''abc''\<rparr>"
  let ?q = "default_policy\<lparr>mode := lit ''normal''\<rparr>"
  have g: "gates_pass ascii_runtime (lit ''leave'') (lit ''dev1'')
     (build_action_context True (Some (lit ''123'')) None) False (lit ''abuse'') ?p (lit ''123'')"
    by (simp add: gates_pass_def reason_too_short_def force_refused_def example_simps)
  have url: "execute_guard_action ascii_runtime
     (mock_transport (Inl (OtherException (lit ''InvalidURL''))))
     (lit ''leave'') (lit ''dev1'') (build_action_context True (Some (lit ''123'')) None) False
     (lit ''abuse'') (lit ''planner'') ?p None = Inl (OtherException (lit ''InvalidURL''))"
    unfolding gates_pass_result [OF g]
    by (simp add: default_policy_def get_effective_dry_run_def remote_call_def call_napcat_def
        mock_transport_def)
  have body: "execute_guard_action ascii_runtime
     (mock_transport
        (Inr \<lparr>status_code = 200, body_json = Inl (OtherException (lit ''RecursionError''))\<rparr>))
     (lit ''leave'') (lit ''dev1'') (build_action_context True (Some (lit ''123'')) None) False
     (lit ''abuse'') (lit ''planner'') ?q None = Inl (OtherException (lit ''RecursionError''))"
    unfolding gates_pass_result [OF example_gates(1)]
    by (simp add: default_policy_def get_effective_dry_run_def remote_call_def call_napcat_def
        interpret_response_def mock_transport_def)
  from url body show ?thesis by simp
qed

theorem evaluate_raises_on_uncaught_exception_witness:
  "isl (execute_guard_action ascii_runtime
     (mock_transport (Inl (OtherException (lit ''InvalidURL''))))
     (lit ''leave'') (lit ''dev1'') (build_action_context True (Some (lit ''123'')) None) False
     (lit ''abuse'') (lit ''planner'')
     (default_policy\<lparr>mode := lit ''normal'', napcat_port := lit ''abc''\<rparr>) None) \<and>
   isl (execute_guard_action ascii_runtime
     (mock_transport
        (Inr \<lparr>status_code = 200, body_json = Inl (OtherException (lit ''RecursionError''))\<rparr>))
     (lit ''leave'') (lit ''dev1'') (build_action_context True (Some (lit ''123'')) None) False
     (lit ''abuse'') (lit ''planner'') (default_policy\<lparr>mode := lit ''normal''\<rparr>) None)"
  using evaluate_raises_on_uncaught_exception by simp

text \<open>
  C3, as stated, fails. The claim is that a mode other than "cautious" and "normal" is
  treated as "cautious", so that the reason-length gate applies. With mode "strict", a
  minimum length of 4 and an empty reason, a "delete" in a private context is not rejected:
  with dry-run on it succeeds.
\<close>

theorem invalid_mode_counterexample:
  "execute_guard_action ascii_runtime (mock_transport (Inl TimeoutException)) (lit ''delete'')
     (lit ''dev1'') (build_action_context False None (Some (lit ''u1''))) False [] (lit ''planner'')
     (default_policy\<lparr>mode := lit ''strict'', default_dry_run := True\<rparr>) None =
   Inr \<lparr>success = True,
        message = msg_dry_run (lit ''delete'') (lit ''u1'') (lit ''planner'') False [],
        action_type = lit ''delete'', target_id = Some (lit ''u1''), source = lit ''planner'',
        executed = False, dry_run = True\<rparr> \<and>
   lit ''strict'' \<noteq> lit ''cautious'' \<and> lit ''strict'' \<noteq> lit ''normal'' \<and>
   int (length (normalize_reason (Some []))) <
     min_reason_length (default_policy\<lparr>mode := lit ''strict'', default_dry_run := True\<rparr>)"
proof -
  let ?p = "default_policy\<lparr>mode := lit ''strict'', default_dry_run := True\<rparr>"
  have m: "normalized_mode ascii_runtime ?p = lit ''strict''"
    by (rule normalized_mode_strict) simp
  have g: "gates_pass ascii_runtime (lit ''delete'') (lit ''dev1'')
     (build_action_context False None (Some (lit ''u1''))) False [] ?p (lit ''u1'')"
    by (simp add: gates_pass_def resolves_to_def reason_too_short_def force_refused_def
      normalized_action_literals m build_action_context_def lit_literals)
  show ?thesis
    unfolding gates_pass_result [OF g]
    by (simp add: default_policy_def get_effective_dry_run_def normalized_action_literals
        normalize_reason_empty lit_literals)
qed

text \<open>
  C3, amended. The evaluator replaces an empty mode by "cautious" and then trims and
  lowercases the mode. With a reason shorter than the minimum, the request is rejected at
  the reason-length gate when the mode is empty or its normalised form is "cautious". When
  the normalised form is non-empty and different from "cautious" ("normal", or an invalid
  string such as "strict"), the gate is skipped: the evaluation gives exactly the result it
  gives in mode "normal", which is never the reason-length rejection.
\<close>

theorem mode_resolution:
  assumes "resolves_to (normalized_action rt atype) ctx t"
    and "int (length (normalize_reason (Some reason))) < min_reason_length policy"
  shows
    "(mode policy = [] \<or> normalized_mode rt policy = lit ''cautious'' \<longrightarrow>
        execute_guard_action rt post atype actor ctx force reason src policy c =
          Inr \<lparr>success = False, message = msg_reason_too_short (min_reason_length policy),
               action_type = normalized_action rt atype, target_id = Some t, source = src,
               executed = False, dry_run = False\<rparr>) \<and>
     (mode policy \<noteq> [] \<longrightarrow> normalized_mode rt policy = lower rt (strip (mode policy))) \<and>
     (normalized_mode rt policy \<noteq> [] \<and> normalized_mode rt policy \<noteq> lit ''cautious'' \<longrightarrow>
        execute_guard_action rt post atype actor ctx force reason src policy c =
          execute_guard_action rt post atype actor ctx force reason src
            (policy\<lparr>mode := lit ''normal''\<rparr>) c \<and>
        execute_guard_action rt post atype actor ctx force reason src policy c \<noteq>
          Inr \<lparr>success = False, message = msg_reason_too_short (min_reason_length policy),
               action_type = normalized_action rt atype, target_id = Some t, source = src,
               executed = False, dry_run = False\<rparr>)"
proof (intro conjI impI)
  assume "mode policy = [] \<or> normalized_mode rt policy = lit ''cautious''"
  then have "normalized_mode rt policy = lit ''cautious''"
    using normalized_mode_empty by blast
  with assms(2) have "reason_too_short rt policy reason"
    by (simp add: reason_too_short_def)
  then show "execute_guard_action rt post atype actor ctx force reason src policy c =
          Inr \<lparr>success = False, message = msg_reason_too_short (min_reason_length policy),
               action_type = normalized_action rt atype, target_id = Some t, source = src,
               executed = False, dry_run = False\<rparr>"
    unfolding resolved_result [OF assms(1)] by (simp add: too_short_result rejection_def)
next
  assume "mode policy \<noteq> []"
  then show "normalized_mode rt policy = lower rt (strip (mode policy))"
    by (rule normalized_mode_nonempty)
next
  assume n: "normalized_mode rt policy \<noteq> [] \<and> normalized_mode rt policy \<noteq> lit ''cautious''"
  then have a: "\<not> reason_too_short rt policy reason"
    by (simp add: reason_too_short_def)
  have "normalized_mode rt (policy\<lparr>mode := lit ''normal''\<rparr>) = lit ''normal''"
    by (rule normalized_mode_literals) simp
  then have b: "\<not> reason_too_short rt (policy\<lparr>mode := lit ''normal''\<rparr>) reason"
    by (simp add: reason_too_short_def lit_literals)
  show "execute_guard_action rt post atype actor ctx force reason src policy c =
          execute_guard_action rt post atype actor ctx force reason src
            (policy\<lparr>mode := lit ''normal''\<rparr>) c"
    unfolding resolved_result [OF assms(1)] using execute_resolved_mode [OF a b] by simp
  show "execute_guard_action rt post atype actor ctx force reason src policy c \<noteq>
          Inr \<lparr>success = False, message = msg_reason_too_short (min_reason_length policy),
               action_type = normalized_action rt atype, target_id = Some t, source = src,
               executed = False, dry_run = False\<rparr>"
    unfolding resolved_result [OF assms(1)]
    using not_too_short_not_rejected [OF a] by (simp add: rejection_def)
qed

theorem mode_resolution_witness:
  "resolves_to (normalized_action ascii_runtime (lit ''delete''))
     (build_action_context False None (Some (lit ''u1''))) (lit ''u1'') \<and>
   int (length (normalize_reason (Some (lit ''no'')))) <
     min_reason_length (default_policy\<lparr>mode := []\<rparr>) \<and>
   execute_guard_action ascii_runtime (mock_transport (Inl TimeoutException)) (lit ''delete'')
     (lit ''dev1'') (build_action_context False None (Some (lit ''u1''))) False (lit ''no'')
     (lit ''planner'') (default_policy\<lparr>mode := []\<rparr>) None =
     Inr \<lparr>success = False, message = msg_reason_too_short 4, action_type = lit ''delete'',
          target_id = Some (lit ''u1''), source = lit ''planner'', executed = False,
          dry_run = False\<rparr> \<and>
   normalized_mode ascii_runtime (default_policy\<lparr>mode := lit ''strict''\<rparr>) = lit ''strict'' \<and>
   execute_guard_action ascii_runtime (mock_transport (Inl TimeoutException)) (lit ''delete'')
     (lit ''dev1'') (build_action_context False None (Some (lit ''u1''))) False (lit ''no'')
     (lit ''planner'') (default_policy\<lparr>mode := lit ''strict''\<rparr>) None =
   execute_guard_action ascii_runtime (mock_transport (Inl TimeoutException)) (lit ''delete'')
     (lit ''dev1'') (build_action_context False None (Some (lit ''u1''))) False (lit ''no'')
     (lit ''planner'') (default_policy\<lparr>mode := lit ''normal''\<rparr>) None"
proof -
  have t: "resolves_to (normalized_action ascii_runtime (lit ''delete''))
     (build_action_context False None (Some (lit ''u1''))) (lit ''u1'')"
    by (simp add: example_simps)
  have s1: "int (length (normalize_reason (Some (lit ''no'')))) <
     min_reason_length (default_policy\<lparr>mode := []\<rparr>)"
    and s2: "int (length (normalize_reason (Some (lit ''no'')))) <
     min_reason_length (default_policy\<lparr>mode := lit ''strict''\<rparr>)"
    by (simp_all add: example_simps default_policy_def)
  have m: "normalized_mode ascii_runtime (default_policy\<lparr>mode := lit ''strict''\<rparr>) = lit ''strict''"
    by (simp add: example_simps)
  from mode_resolution [OF t s1, of "mock_transport (Inl TimeoutException)" "lit ''dev1''" False
      "lit ''planner''" None]
    mode_resolution [OF t s2, of "mock_transport (Inl TimeoutException)" "lit ''dev1''" False
      "lit ''planner''" None]
    t s1 m
  show ?thesis
    by (simp add: example_simps default_policy_def)
qed

text \<open>
  C4. For a request whose target resolves, the result is the reason-length rejection exactly
  when the normalised mode is "cautious" and the trimmed reason has fewer characters than
  \<open>min_reason_length\<close>. In mode "normal" a reason of length 0 passes that gate. In mode
  "cautious", an empty reason on an otherwise valid "delete" is rejected with success false
  and a message that cites the minimum length; the minimum is positive there, as its default
  4 is (with a minimum of 0 or less the first sentence says that nothing is too short).
\<close>

theorem reason_length_gate:
  assumes "resolves_to (normalized_action rt atype) ctx t"
  shows
    "(execute_guard_action rt post atype actor ctx force reason src policy c =
        Inr \<lparr>success = False, message = msg_reason_too_short (min_reason_length policy),
             action_type = normalized_action rt atype, target_id = Some t, source = src,
             executed = False, dry_run = False\<rparr>
      \<longleftrightarrow> normalized_mode rt policy = lit ''cautious'' \<and>
          int (length (strip reason)) < min_reason_length policy) \<and>
     (normalized_mode rt policy = lit ''normal'' \<and> length (strip reason) = 0 \<longrightarrow>
        \<not> reason_too_short rt policy reason \<and>
        execute_guard_action rt post atype actor ctx force reason src policy c \<noteq>
          Inr \<lparr>success = False, message = msg_reason_too_short (min_reason_length policy),
               action_type = normalized_action rt atype, target_id = Some t, source = src,
               executed = False, dry_run = False\<rparr>) \<and>
     (normalized_action rt atype = lit ''delete'' \<and> normalized_mode rt policy = lit ''cautious'' \<and>
      strip reason = [] \<and> 0 < min_reason_length policy \<longrightarrow>
        execute_guard_action rt post atype actor ctx force reason src policy c =
          Inr \<lparr>success = False,
               message =
                 [23457, 24910, 27169, 24335, 25298, 32477, 25191, 34892, 65306] @ lit ''reason '' @
                 [33267, 23569, 32] @ str_int (min_reason_length policy) @ [32, 20010, 23383, 31526],
               action_type = lit ''delete'', target_id = private_user_id ctx, source = src,
               executed = False, dry_run = False\<rparr>)"
proof -
  have rs: "reason_too_short rt policy reason \<longleftrightarrow>
      normalized_mode rt policy = lit ''cautious'' \<and>
      int (length (strip reason)) < min_reason_length policy"
    by (simp add: reason_too_short_def normalize_reason_def)
  have iff: "execute_guard_action rt post atype actor ctx force reason src policy c =
        Inr \<lparr>success = False, message = msg_reason_too_short (min_reason_length policy),
             action_type = normalized_action rt atype, target_id = Some t, source = src,
             executed = False, dry_run = False\<rparr>
      \<longleftrightarrow> reason_too_short rt policy reason"
    unfolding resolved_result [OF assms]
  proof (cases "reason_too_short rt policy reason")
    case True
    then show "execute_resolved rt post (normalized_action rt atype)
        (napcat_action_of (normalized_action rt atype)) (payload_of (normalized_action rt atype) t) t
        actor force reason src policy c =
        Inr \<lparr>success = False, message = msg_reason_too_short (min_reason_length policy),
             action_type = normalized_action rt atype, target_id = Some t, source = src,
             executed = False, dry_run = False\<rparr>
      \<longleftrightarrow> reason_too_short rt policy reason"
      using too_short_result [OF True] by (simp add: rejection_def)
  next
    case False
    then show "execute_resolved rt post (normalized_action rt atype)
        (napcat_action_of (normalized_action rt atype)) (payload_of (normalized_action rt atype) t) t
        actor force reason src policy c =
        Inr \<lparr>success = False, message = msg_reason_too_short (min_reason_length policy),
             action_type = normalized_action rt atype, target_id = Some t, source = src,
             executed = False, dry_run = False\<rparr>
      \<longleftrightarrow> reason_too_short rt policy reason"
      using not_too_short_not_rejected [OF False] by (simp add: rejection_def)
  qed
  have normal: "\<not> reason_too_short rt policy reason"
    if "normalized_mode rt policy = lit ''normal''"
    using that by (simp add: reason_too_short_def lit_literals)
  have scenario: "execute_guard_action rt post atype actor ctx force reason src policy c =
          Inr \<lparr>success = False,
               message =
                 [23457, 24910, 27169, 24335, 25298, 32477, 25191, 34892, 65306] @ lit ''reason '' @
                 [33267, 23569, 32] @ str_int (min_reason_length policy) @ [32, 20010, 23383, 31526],
               action_type = lit ''delete'', target_id = private_user_id ctx, source = src,
               executed = False, dry_run = False\<rparr>"
    if d: "normalized_action rt atype = lit ''delete''"
      and m: "normalized_mode rt policy = lit ''cautious''"
      and e: "strip reason = []" and p: "0 < min_reason_length policy"
  proof -
    from assms d have "private_user_id ctx = Some t"
      using leave_neq_delete by (auto simp: resolves_to_def)
    moreover from m e p have "reason_too_short rt policy reason"
      by (simp add: rs)
    ultimately show ?thesis
      using iff d by (simp add: msg_reason_too_short_def)
  qed
  show ?thesis
    using iff rs normal scenario by (simp add: lit_literals)
qed

theorem reason_length_gate_witness:
  "resolves_to (normalized_action ascii_runtime (lit ''delete''))
     (build_action_context False None (Some (lit ''u1''))) (lit ''u1'') \<and>
   normalized_mode ascii_runtime default_policy = lit ''cautious'' \<and>
   strip [] = [] \<and> 0 < min_reason_length default_policy \<and>
   execute_guard_action ascii_runtime (mock_transport (Inl TimeoutException)) (lit ''delete'')
     (lit ''dev1'') (build_action_context False None (Some (lit ''u1''))) False []
     (lit ''planner'') default_policy None =
     Inr \<lparr>success = False,
          message =
            [23457, 24910, 27169, 24335, 25298, 32477, 25191, 34892, 65306] @ lit ''reason '' @
            [33267, 23569, 32] @ lit ''4'' @ [32, 20010, 23383, 31526],
          action_type = lit ''delete'', target_id = Some (lit ''u1''), source = lit ''planner'',
          executed = False, dry_run = False\<rparr> \<and>
   normalized_mode ascii_runtime (default_policy\<lparr>mode := lit ''normal''\<rparr>) = lit ''normal'' \<and>
   execute_guard_action ascii_runtime (mock_transport (Inl TimeoutException)) (lit ''delete'')
     (lit ''dev1'') (build_action_context False None (Some (lit ''u1''))) False []
     (lit ''planner'') (default_policy\<lparr>mode := lit ''normal''\<rparr>) None \<noteq>
     Inr \<lparr>success = False, message = msg_reason_too_short 4, action_type = lit ''delete'',
          target_id = Some (lit ''u1''), source = lit ''planner'', executed = False,
          dry_run = False\<rparr>"
proof -
  have t: "resolves_to (normalized_action ascii_runtime (lit ''delete''))
     (build_action_context False None (Some (lit ''u1''))) (lit ''u1'')"
    by (simp add: example_simps)
  have m: "normalized_mode ascii_runtime default_policy = lit ''cautious''"
    "normalized_mode ascii_runtime (default_policy\<lparr>mode := lit ''normal''\<rparr>) = lit ''normal''"
    by (simp_all add: example_simps default_policy_def)
  have p: "0 < min_reason_length default_policy"
    "min_reason_length default_policy = 4"
    "private_user_id (build_action_context False None (Some (lit ''u1''))) = Some (lit ''u1'')"
    by (simp_all add: default_policy_def build_action_context_def)
  from reason_length_gate [OF t, of "mock_transport (Inl TimeoutException)" "lit ''dev1''" False "[]"
      "lit ''planner''" default_policy None]
    reason_length_gate [OF t, of "mock_transport (Inl TimeoutException)" "lit ''dev1''" False "[]"
      "lit ''planner''" "default_policy\<lparr>mode := lit ''normal''\<rparr>" None]
    t m p
  show ?thesis
    by (simp add: example_simps msg_reason_too_short_def str_int_4)
qed

text \<open>
  C5. At the force gate (the target resolves and the reason-length gate passes), a request
  with force set is rejected with the force-disabled message when the policy does not allow
  force, whether or not the actor is in the developer whitelist; when the policy allows
  force and the actor is not in the whitelist, it is rejected with the whitelist-only
  message. The two messages differ.
\<close>

theorem force_gate_precedence:
  assumes "resolves_to (normalized_action rt atype) ctx t"
    and "\<not> reason_too_short rt policy reason"
    and "force"
  shows
    "(\<not> allow_force policy \<longrightarrow>
        execute_guard_action rt post atype actor ctx force reason src policy c =
          Inr \<lparr>success = False, message = msg_force_disabled,
               action_type = normalized_action rt atype, target_id = Some t, source = src,
               executed = False, dry_run = False\<rparr>) \<and>
     (allow_force policy \<and> actor \<notin> developer_whitelist policy \<longrightarrow>
        execute_guard_action rt post atype actor ctx force reason src policy c =
          Inr \<lparr>success = False, message = msg_force_whitelist,
               action_type = normalized_action rt atype, target_id = Some t, source = src,
               executed = False, dry_run = False\<rparr>) \<and>
     msg_force_disabled \<noteq> msg_force_whitelist"
  unfolding resolved_result [OF assms(1)]
  using force_disabled_result [OF assms(2,3)] force_whitelist_result [OF assms(2,3)] msg_force_neq
  by (simp add: rejection_def)

theorem force_gate_precedence_witness:
  "resolves_to (normalized_action ascii_runtime (lit ''leave''))
     (build_action_context True (Some (lit ''123'')) None) (lit ''123'') \<and>
   \<not> reason_too_short ascii_runtime
       (default_policy\<lparr>allow_force := False, developer_whitelist := {lit ''dev1''}\<rparr>) (lit ''abuse'') \<and>
   lit ''dev1'' \<in> developer_whitelist
       (default_policy\<lparr>allow_force := False, developer_whitelist := {lit ''dev1''}\<rparr>) \<and>
   execute_guard_action ascii_runtime (mock_transport (Inl TimeoutException)) (lit ''leave'')
     (lit ''dev1'') (build_action_context True (Some (lit ''123'')) None) True (lit ''abuse'')
     (lit ''command'')
     (default_policy\<lparr>allow_force := False, developer_whitelist := {lit ''dev1''}\<rparr>) None =
     Inr \<lparr>success = False, message = msg_force_disabled, action_type = lit ''leave'',
          target_id = Some (lit ''123''), source = lit ''command'', executed = False,
          dry_run = False\<rparr> \<and>
   lit ''u2'' \<notin> developer_whitelist (default_policy\<lparr>developer_whitelist := {lit ''dev1''}\<rparr>) \<and>
   execute_guard_action ascii_runtime (mock_transport (Inl TimeoutException)) (lit ''leave'')
     (lit ''u2'') (build_action_context True (Some (lit ''123'')) None) True (lit ''abuse'')
     (lit ''command'') (default_policy\<lparr>developer_whitelist := {lit ''dev1''}\<rparr>) None =
     Inr \<lparr>success = False, message = msg_force_whitelist, action_type = lit ''leave'',
          target_id = Some (lit ''123''), source = lit ''command'', executed = False,
          dry_run = False\<rparr>"
proof -
  have t: "resolves_to (normalized_action ascii_runtime (lit ''leave''))
     (build_action_context True (Some (lit ''123'')) None) (lit ''123'')"
    by (simp add: example_simps)
  have r: "\<not> reason_too_short ascii_runtime
       (default_policy\<lparr>allow_force := False, developer_whitelist := {lit ''dev1''}\<rparr>) (lit ''abuse'')"
    "\<not> reason_too_short ascii_runtime
       (default_policy\<lparr>developer_whitelist := {lit ''dev1''}\<rparr>) (lit ''abuse'')"
    by (simp_all add: reason_too_short_def example_simps default_policy_def)
  have w: "lit ''dev1'' \<in> developer_whitelist
       (default_policy\<lparr>allow_force := False, developer_whitelist := {lit ''dev1''}\<rparr>)"
    "lit ''u2'' \<notin> developer_whitelist (default_policy\<lparr>developer_whitelist := {lit ''dev1''}\<rparr>)"
    "\<not> allow_force (default_policy\<lparr>allow_force := False, developer_whitelist := {lit ''dev1''}\<rparr>)"
    "allow_force (default_policy\<lparr>developer_whitelist := {lit ''dev1''}\<rparr>)"
    by (simp_all add: default_policy_def lit_def)
  from force_gate_precedence [OF t r(1), of True "mock_transport (Inl TimeoutException)"
      "lit ''dev1''" "lit ''command'' " None]
    force_gate_precedence [OF t r(2), of True "mock_transport (Inl TimeoutException)"
      "lit ''u2''" "lit ''command'' " None]
    t r w
  show ?thesis
    by (simp add: example_simps)
qed

text \<open>
  C6. The effective dry-run flag is the override when there is one, for both of its values,
  and the policy's default otherwise; and the evaluator follows that flag. When all gates
  pass and the flag is true, the result has success true, executed false, dry-run true and
  the resolved target as target id; in particular, a "leave" with group id "123", mode
  "normal", default dry-run on and no override gives success true, executed false, dry-run
  true and target id "123". When all gates pass and the flag is false, the remote call is
  made and the result, success or failure, has dry-run false. So the \<open>dry_run\<close> field of
  a result past the gates is the override when there is one and the default otherwise: an
  override of true gives the dry-run result whatever the default is, an override of false
  gives no dry-run result even when the default is true, and a policy with the override
  \<open>b\<close> is evaluated exactly as the policy with default \<open>b\<close> and no override.
\<close>

theorem dry_run_precedence:
  "get_effective_dry_run d (Some b) = b \<and>
   get_effective_dry_run d None = d \<and>
   (gates_pass rt atype actor ctx force reason policy t \<and>
    get_effective_dry_run (default_dry_run policy) (dry_run_override policy) \<longrightarrow>
      execute_guard_action rt post atype actor ctx force reason src policy c =
        Inr \<lparr>success = True,
             message = msg_dry_run (normalized_action rt atype) t src force
                         (normalize_reason (Some reason)),
             action_type = normalized_action rt atype, target_id = Some t, source = src,
             executed = False, dry_run = True\<rparr>) \<and>
   (atype = lit ''leave'' \<and> is_group ctx \<and> group_id ctx = Some (lit ''123'') \<and>
    mode policy = lit ''normal'' \<and> default_dry_run policy \<and> dry_run_override policy = None \<and>
    \<not> force_refused policy actor force \<longrightarrow>
      (\<exists>r. execute_guard_action rt post atype actor ctx force reason src policy c = Inr r \<and>
           success r \<and> \<not> executed r \<and> dry_run r \<and> target_id r = Some (lit ''123''))) \<and>
   (gates_pass rt atype actor ctx force reason policy t \<and>
    \<not> get_effective_dry_run (default_dry_run policy) (dry_run_override policy) \<longrightarrow>
      execute_guard_action rt post atype actor ctx force reason src policy c =
        (case remote_call rt post c policy (normalized_action rt atype) t of
           Inl e \<Rightarrow> Inl e
         | Inr (ok, detail, raw) \<Rightarrow>
             if ok then
               Inr \<lparr>success = True, message = msg_done (normalized_action rt atype) t,
                    action_type = normalized_action rt atype, target_id = Some t, source = src,
                    executed = True, dry_run = False\<rparr>
             else
               Inr \<lparr>success = False,
                    message = msg_failed (normalized_action rt atype) detail,
                    action_type = normalized_action rt atype, target_id = Some t, source = src,
                    executed = False, dry_run = False\<rparr>)) \<and>
   (gates_pass rt atype actor ctx force reason policy t \<and>
    execute_guard_action rt post atype actor ctx force reason src policy c = Inr r \<longrightarrow>
      dry_run r = (case dry_run_override policy of None \<Rightarrow> default_dry_run policy | Some v \<Rightarrow> v)) \<and>
   (gates_pass rt atype actor ctx force reason policy t \<and> dry_run_override policy = Some True \<longrightarrow>
      execute_guard_action rt post atype actor ctx force reason src policy c =
        Inr \<lparr>success = True,
             message = msg_dry_run (normalized_action rt atype) t src force
                         (normalize_reason (Some reason)),
             action_type = normalized_action rt atype, target_id = Some t, source = src,
             executed = False, dry_run = True\<rparr>) \<and>
   (gates_pass rt atype actor ctx force reason policy t \<and> dry_run_override policy = Some False \<and>
    execute_guard_action rt post atype actor ctx force reason src policy c = Inr r \<longrightarrow>
      \<not> dry_run r) \<and>
   (dry_run_override policy = Some b \<longrightarrow>
      execute_guard_action rt post atype actor ctx force reason src policy c =
      execute_guard_action rt post atype actor ctx force reason src
        (policy\<lparr>default_dry_run := b, dry_run_override := None\<rparr>) c)"
proof -
  have general: "execute_guard_action rt' post atype' actor ctx force reason src policy c =
        Inr \<lparr>success = True,
             message = msg_dry_run (normalized_action rt' atype') t' src force
                         (normalize_reason (Some reason)),
             action_type = normalized_action rt' atype', target_id = Some t', source = src,
             executed = False, dry_run = True\<rparr>"
    if "gates_pass rt' atype' actor ctx force reason policy t'"
      and "get_effective_dry_run (default_dry_run policy) (dry_run_override policy)"
    for rt' atype' t'
    using that by (simp add: gates_pass_result)
  have scenario: "\<exists>r. execute_guard_action rt post atype actor ctx force reason src policy c = Inr r \<and>
           success r \<and> \<not> executed r \<and> dry_run r \<and> target_id r = Some (lit ''123'')"
    if a: "atype = lit ''leave''" and g: "is_group ctx" "group_id ctx = Some (lit ''123'')"
      and m: "mode policy = lit ''normal''"
      and dr: "default_dry_run policy" "dry_run_override policy = None"
      and f: "\<not> force_refused policy actor force"
  proof -
    from m have "\<not> reason_too_short rt policy reason"
      by (simp add: reason_too_short_def normalized_mode_literals lit_literals)
    with a g f have "gates_pass rt atype actor ctx force reason policy (lit ''123'')"
      by (simp add: gates_pass_def resolves_to_def normalized_action_literals lit_literals)
    moreover from dr
    have "get_effective_dry_run (default_dry_run policy) (dry_run_override policy)"
      by (simp add: get_effective_dry_run_def)
    ultimately show ?thesis
      using general by simp
  qed
  have live: "execute_guard_action rt post atype actor ctx force reason src policy c =
        (case remote_call rt post c policy (normalized_action rt atype) t of
           Inl e \<Rightarrow> Inl e
         | Inr (ok, detail, raw) \<Rightarrow>
             if ok then
               Inr \<lparr>success = True, message = msg_done (normalized_action rt atype) t,
                    action_type = normalized_action rt atype, target_id = Some t, source = src,
                    executed = True, dry_run = False\<rparr>
             else
               Inr \<lparr>success = False,
                    message = msg_failed (normalized_action rt atype) detail,
                    action_type = normalized_action rt atype, target_id = Some t, source = src,
                    executed = False, dry_run = False\<rparr>)"
    if "gates_pass rt atype actor ctx force reason policy t"
      and "\<not> get_effective_dry_run (default_dry_run policy) (dry_run_override policy)"
    using that by (simp add: gates_pass_result rejection_def split: sum.splits prod.splits)
  have flag: "dry_run r = get_effective_dry_run (default_dry_run policy) (dry_run_override policy)"
    if g: "gates_pass rt atype actor ctx force reason policy t"
      and e: "execute_guard_action rt post atype actor ctx force reason src policy c = Inr r"
  proof (cases "get_effective_dry_run (default_dry_run policy) (dry_run_override policy)")
    case True
    with general [OF g True] e show ?thesis by auto
  next
    case False
    with live [OF g False] e show ?thesis
      by (auto split: sum.splits if_splits)
  qed
  have flag': "dry_run r = (case dry_run_override policy of None \<Rightarrow> default_dry_run policy | Some v \<Rightarrow> v)"
    if "gates_pass rt atype actor ctx force reason policy t"
      and "execute_guard_action rt post atype actor ctx force reason src policy c = Inr r"
    using flag [OF that] by (simp add: get_effective_dry_run_def)
  have on: "get_effective_dry_run (default_dry_run policy) (dry_run_override policy)"
    if "dry_run_override policy = Some True"
    using that by (simp add: get_effective_dry_run_def)
  have off: "\<not> dry_run r"
    if "gates_pass rt atype actor ctx force reason policy t" "dry_run_override policy = Some False"
      "execute_guard_action rt post atype actor ctx force reason src policy c = Inr r"
    using flag' [OF that(1,3)] that(2) by simp
  show ?thesis
    using general [of rt atype t] scenario live flag' on off
      execute_guard_action_override [of policy b rt post atype actor ctx force reason src c]
    by (simp add: get_effective_dry_run_def)
qed

theorem dry_run_precedence_witness:
  "gates_pass ascii_runtime (lit ''leave'') (lit ''dev1'')
     (build_action_context True (Some (lit ''123'')) None) False (lit ''abuse'')
     (default_policy\<lparr>mode := lit ''normal'', default_dry_run := True\<rparr>) (lit ''123'') \<and>
   get_effective_dry_run
     (default_dry_run (default_policy\<lparr>mode := lit ''normal'', default_dry_run := True\<rparr>))
     (dry_run_override (default_policy\<lparr>mode := lit ''normal'', default_dry_run := True\<rparr>)) \<and>
   \<not> force_refused (default_policy\<lparr>mode := lit ''normal'', default_dry_run := True\<rparr>)
       (lit ''dev1'') False \<and>
   execute_guard_action ascii_runtime (mock_transport (Inl TimeoutException)) (lit ''leave'')
     (lit ''dev1'') (build_action_context True (Some (lit ''123'')) None) False (lit ''abuse'')
     (lit ''planner'') (default_policy\<lparr>mode := lit ''normal'', default_dry_run := True\<rparr>) None =
     Inr \<lparr>success = True,
          message = msg_dry_run (lit ''leave'') (lit ''123'') (lit ''planner'') False (lit ''abuse''),
          action_type = lit ''leave'', target_id = Some (lit ''123''), source = lit ''planner'',
          executed = False, dry_run = True\<rparr> \<and>
   gates_pass ascii_runtime (lit ''leave'') (lit ''dev1'')
     (build_action_context True (Some (lit ''123'')) None) False (lit ''abuse'')
     (default_policy\<lparr>mode := lit ''normal'', default_dry_run := True,
        dry_run_override := Some False\<rparr>) (lit ''123'') \<and>
   \<not> get_effective_dry_run
       (default_dry_run (default_policy\<lparr>mode := lit ''normal'', default_dry_run := True,
          dry_run_override := Some False\<rparr>))
       (dry_run_override (default_policy\<lparr>mode := lit ''normal'', default_dry_run := True,
          dry_run_override := Some False\<rparr>)) \<and>
   execute_guard_action ascii_runtime
     (mock_transport
        (Inr \<lparr>status_code = 200, body_json = Inr (JDict [(lit ''status'', JStr (lit ''ok''))])\<rparr>))
     (lit ''leave'') (lit ''dev1'') (build_action_context True (Some (lit ''123'')) None) False
     (lit ''abuse'') (lit ''planner'')
     (default_policy\<lparr>mode := lit ''normal'', default_dry_run := True,
        dry_run_override := Some False\<rparr>) None =
     Inr \<lparr>success = True, message = msg_done (lit ''leave'') (lit ''123''),
          action_type = lit ''leave'', target_id = Some (lit ''123''), source = lit ''planner'',
          executed = True, dry_run = False\<rparr> \<and>
   gates_pass ascii_runtime (lit ''leave'') (lit ''dev1'')
     (build_action_context True (Some (lit ''123'')) None) False (lit ''abuse'')
     (default_policy\<lparr>mode := lit ''normal'', dry_run_override := Some True\<rparr>) (lit ''123'') \<and>
   \<not> default_dry_run (default_policy\<lparr>mode := lit ''normal'', dry_run_override := Some True\<rparr>) \<and>
   execute_guard_action ascii_runtime (mock_transport (Inl TimeoutException)) (lit ''leave'')
     (lit ''dev1'') (build_action_context True (Some (lit ''123'')) None) False (lit ''abuse'')
     (lit ''planner'') (default_policy\<lparr>mode := lit ''normal'', dry_run_override := Some True\<rparr>)
     None =
     Inr \<lparr>success = True,
          message = msg_dry_run (lit ''leave'') (lit ''123'') (lit ''planner'') False (lit ''abuse''),
          action_type = lit ''leave'', target_id = Some (lit ''123''), source = lit ''planner'',
          executed = False, dry_run = True\<rparr>"
proof -
  let ?ctx = "build_action_context True (Some (lit ''123'')) None"
  let ?pa = "default_policy\<lparr>mode := lit ''normal'', default_dry_run := True\<rparr>"
  let ?pb = "default_policy\<lparr>mode := lit ''normal'', default_dry_run := True,
        dry_run_override := Some False\<rparr>"
  let ?pc = "default_policy\<lparr>mode := lit ''normal'', dry_run_override := Some True\<rparr>"
  let ?raw = "[(lit ''status'', JStr (lit ''ok''))]"
  let ?ok = "mock_transport (Inr \<lparr>status_code = 200, body_json = Inr (JDict ?raw)\<rparr>)"
  have ga: "gates_pass ascii_runtime (lit ''leave'') (lit ''dev1'') ?ctx False (lit ''abuse'') ?pa
      (lit ''123'')"
    and gb: "gates_pass ascii_runtime (lit ''leave'') (lit ''dev1'') ?ctx False (lit ''abuse'') ?pb
      (lit ''123'')"
    and gc: "gates_pass ascii_runtime (lit ''leave'') (lit ''dev1'') ?ctx False (lit ''abuse'') ?pc
      (lit ''123'')"
    by (simp_all add: gates_pass_def reason_too_short_def force_refused_def example_simps)
  have da: "get_effective_dry_run (default_dry_run ?pa) (dry_run_override ?pa)"
    "mode ?pa = lit ''normal''" "default_dry_run ?pa" "dry_run_override ?pa = None"
    and db: "\<not> get_effective_dry_run (default_dry_run ?pb) (dry_run_override ?pb)"
    and dc: "dry_run_override ?pc = Some True" "\<not> default_dry_run ?pc"
    by (simp_all add: get_effective_dry_run_def default_policy_def)
  have f: "\<not> force_refused ?pa (lit ''dev1'') False"
    by (simp add: force_refused_def)
  have c: "is_group ?ctx" "group_id ?ctx = Some (lit ''123'')"
    by (simp_all add: build_action_context_def)
  have rc: "remote_call ascii_runtime ?ok None ?pb (normalized_action ascii_runtime (lit ''leave''))
      (lit ''123'') = Inr (True, lit ''ok'', Some ?raw)"
    by (simp add: remote_call_def call_napcat_def interpret_response_def mock_transport_def)
  note ia = dry_run_precedence [where rt = ascii_runtime and atype = "lit ''leave''"
      and actor = "lit ''dev1''" and ctx = ?ctx and force = False and reason = "lit ''abuse''"
      and policy = ?pa and t = "lit ''123''" and post = "mock_transport (Inl TimeoutException)"
      and src = "lit ''planner''" and c = None]
  note ib = dry_run_precedence [where rt = ascii_runtime and atype = "lit ''leave''"
      and actor = "lit ''dev1''" and ctx = ?ctx and force = False and reason = "lit ''abuse''"
      and policy = ?pb and t = "lit ''123''" and post = ?ok
      and src = "lit ''planner''" and c = None]
  note ic = dry_run_precedence [where rt = ascii_runtime and atype = "lit ''leave''"
      and actor = "lit ''dev1''" and ctx = ?ctx and force = False and reason = "lit ''abuse''"
      and policy = ?pc and t = "lit ''123''" and post = "mock_transport (Inl TimeoutException)"
      and src = "lit ''planner''" and c = None]
  from ia ga da have ra: "execute_guard_action ascii_runtime (mock_transport (Inl TimeoutException))
     (lit ''leave'') (lit ''dev1'') ?ctx False (lit ''abuse'') (lit ''planner'') ?pa None =
     Inr \<lparr>success = True,
          message = msg_dry_run (lit ''leave'') (lit ''123'') (lit ''planner'') False (lit ''abuse''),
          action_type = lit ''leave'', target_id = Some (lit ''123''), source = lit ''planner'',
          executed = False, dry_run = True\<rparr>"
    by (simp add: example_simps)
  from ib gb db rc have rb: "execute_guard_action ascii_runtime ?ok
     (lit ''leave'') (lit ''dev1'') ?ctx False (lit ''abuse'') (lit ''planner'') ?pb None =
     Inr \<lparr>success = True, message = msg_done (lit ''leave'') (lit ''123''),
          action_type = lit ''leave'', target_id = Some (lit ''123''), source = lit ''planner'',
          executed = True, dry_run = False\<rparr>"
    by (simp add: example_simps)
  from ic gc dc have rcc: "execute_guard_action ascii_runtime (mock_transport (Inl TimeoutException))
     (lit ''leave'') (lit ''dev1'') ?ctx False (lit ''abuse'') (lit ''planner'') ?pc None =
     Inr \<lparr>success = True,
          message = msg_dry_run (lit ''leave'') (lit ''123'') (lit ''planner'') False (lit ''abuse''),
          action_type = lit ''leave'', target_id = Some (lit ''123''), source = lit ''planner'',
          executed = False, dry_run = True\<rparr>"
    by (simp add: example_simps)
  from ga da(1) f ra gb db rb gc dc(2) rcc show ?thesis
    by simp
qed

text \<open>
  C7, as stated, fails. The claim is that the result of an unsupported action type carries
  the original input in its \<open>action_type\<close> field. The source sets the field to
  \<open>normalized_action or action_type\<close>: for the input "FOO" the field is "foo".
\<close>

theorem unsupported_echo_counterexample:
  "execute_guard_action ascii_runtime (mock_transport (Inl TimeoutException)) (lit ''FOO'')
     (lit ''dev1'') (build_action_context True (Some (lit ''123'')) None) False
     (lit ''abuse'') (lit ''command'') default_policy None =
   Inr \<lparr>success = False, message = msg_unsupported @ lit ''FOO'', action_type = lit ''foo'',
        target_id = None, source = lit ''command'', executed = False, dry_run = False\<rparr> \<and>
   lit ''foo'' \<noteq> lit ''FOO''"
proof -
  have n: "normalized_action ascii_runtime (lit ''FOO'') = lit ''foo''"
    by (simp add: normalized_action_def or_str_Nil lit_def strip_def isspace_def lower_def
        ascii_lower_def)
  have "lit ''foo'' \<notin> {lit ''leave'', lit ''delete''}" "lit ''foo'' \<noteq> lit ''FOO''"
    by (simp_all add: lit_def)
  then show ?thesis
    using unsupported_result [of ascii_runtime "lit ''FOO''"]
    by (simp add: n rejection_def or_str_def) (simp add: lit_def)
qed

text \<open>
  C7, amended. When the trimmed, lowercased action type is neither "leave" nor "delete",
  the evaluator rejects with the unsupported-action message, which quotes the original
  input, and with no target id. The \<open>action_type\<close> field of the result is the normalised
  form when that is non-empty, and the original input only when the normalised form is empty.
\<close>

theorem unsupported_action:
  assumes "normalized_action rt atype \<notin> {lit ''leave'', lit ''delete''}"
  shows "execute_guard_action rt post atype actor ctx force reason src policy c =
     Inr \<lparr>success = False, message = msg_unsupported @ atype,
          action_type =
            (if normalized_action rt atype \<noteq> [] then normalized_action rt atype else atype),
          target_id = None, source = src, executed = False, dry_run = False\<rparr> \<and>
     normalized_action rt atype = lower rt (strip atype)"
  using unsupported_result [OF assms]
  by (simp add: rejection_def or_str_def normalized_action_def)

theorem unsupported_action_witness:
  "normalized_action ascii_runtime (lit ''FOO'') \<notin> {lit ''leave'', lit ''delete''} \<and>
   execute_guard_action ascii_runtime (mock_transport (Inl TimeoutException)) (lit ''FOO'')
     (lit ''dev1'') (build_action_context True (Some (lit ''123'')) None) False (lit ''abuse'')
     (lit ''command'') default_policy None =
     Inr \<lparr>success = False, message = msg_unsupported @ lit ''FOO'', action_type = lit ''foo'',
          target_id = None, source = lit ''command'', executed = False, dry_run = False\<rparr> \<and>
   normalized_action ascii_runtime (lit ''  '') \<notin> {lit ''leave'', lit ''delete''} \<and>
   execute_guard_action ascii_runtime (mock_transport (Inl TimeoutException)) (lit ''  '')
     (lit ''dev1'') (build_action_context True (Some (lit ''123'')) None) False (lit ''abuse'')
     (lit ''command'') default_policy None =
     Inr \<lparr>success = False, message = msg_unsupported @ lit ''  '', action_type = lit ''  '',
          target_id = None, source = lit ''command'', executed = False, dry_run = False\<rparr>"
proof -
  have n: "normalized_action ascii_runtime (lit ''FOO'') = lit ''foo''"
    "normalized_action ascii_runtime (lit ''  '') = []"
    by (simp_all add: normalized_action_def or_str_Nil lit_def strip_def isspace_def lower_def
        ascii_lower_def)
  have u: "normalized_action ascii_runtime (lit ''FOO'') \<notin> {lit ''leave'', lit ''delete''}"
    "normalized_action ascii_runtime (lit ''  '') \<notin> {lit ''leave'', lit ''delete''}"
    unfolding n by (simp_all add: lit_def)
  have ne: "lit ''foo'' \<noteq> []" by (simp add: lit_def)
  from unsupported_action [OF u(1), of "mock_transport (Inl TimeoutException)" "lit ''dev1''"
      "build_action_context True (Some (lit ''123'')) None" False "lit ''abuse''" "lit ''command''"
      default_policy None]
    unsupported_action [OF u(2), of "mock_transport (Inl TimeoutException)" "lit ''dev1''"
      "build_action_context True (Some (lit ''123'')) None" False "lit ''abuse''" "lit ''command''"
      default_policy None]
    u
  show ?thesis
    by (simp add: n ne)
qed

text \<open>
  C8. When the response has status 401 or 403, the invoker returns false, the
  authentication-failure message with the status in it (the source's text is
  "NapCat", four Chinese characters for "authentication failed", then "(HTTP <status>)"),
  and no raw object. That is not the message of the generic check for a status outside
  200..299, which comes second. The evaluator, when it reaches the remote call, wraps the
  detail into a result with success false and executed false.
\<close>

theorem auth_failure:
  "(post (napcat_url host port action) payload (napcat_headers token) = Inr resp \<and>
    (status_code resp = 401 \<or> status_code resp = 403) \<longrightarrow>
      call_napcat rt post host port token action payload =
        Inr (False,
             lit ''NapCat '' @ [37492, 26435, 22833, 36133] @ lit ''(HTTP '' @
               str_int (status_code resp) @ lit '')'',
             None) \<and>
      msg_auth_failed (status_code resp) \<noteq> msg_http_error (status_code resp)) \<and>
   (gates_pass rt atype actor ctx force reason policy t \<and>
    \<not> get_effective_dry_run (default_dry_run policy) (dry_run_override policy) \<and>
    post (napcat_url (napcat_host policy) (napcat_port policy)
            (napcat_action_of (normalized_action rt atype)))
      (payload_of (normalized_action rt atype) t) (napcat_headers (napcat_token policy)) = Inr resp \<and>
    (status_code resp = 401 \<or> status_code resp = 403) \<longrightarrow>
      execute_guard_action rt post atype actor ctx force reason src policy None =
        Inr \<lparr>success = False,
             message = msg_failed (normalized_action rt atype) (msg_auth_failed (status_code resp)),
             action_type = normalized_action rt atype, target_id = Some t, source = src,
             executed = False, dry_run = False\<rparr>)"
proof (intro conjI impI)
  assume h: "post (napcat_url host port action) payload (napcat_headers token) = Inr resp \<and>
    (status_code resp = 401 \<or> status_code resp = 403)"
  then show "call_napcat rt post host port token action payload =
        Inr (False,
             lit ''NapCat '' @ [37492, 26435, 22833, 36133] @ lit ''(HTTP '' @
               str_int (status_code resp) @ lit '')'',
             None)"
    using call_napcat_auth [of post host port action payload token resp rt]
    by (simp add: msg_auth_failed_def)
  show "msg_auth_failed (status_code resp) \<noteq> msg_http_error (status_code resp)"
    by (rule msg_auth_neq_http)
next
  assume h: "gates_pass rt atype actor ctx force reason policy t \<and>
    \<not> get_effective_dry_run (default_dry_run policy) (dry_run_override policy) \<and>
    post (napcat_url (napcat_host policy) (napcat_port policy)
            (napcat_action_of (normalized_action rt atype)))
      (payload_of (normalized_action rt atype) t) (napcat_headers (napcat_token policy)) = Inr resp \<and>
    (status_code resp = 401 \<or> status_code resp = 403)"
  then have g: "gates_pass rt atype actor ctx force reason policy t" by simp
  from h have "remote_call rt post None policy (normalized_action rt atype) t =
      Inr (False, msg_auth_failed (status_code resp), None)"
    using call_napcat_auth [of post "napcat_host policy" "napcat_port policy"
        "napcat_action_of (normalized_action rt atype)" "payload_of (normalized_action rt atype) t"
        "napcat_token policy" resp rt]
    by (simp add: remote_call_def)
  with h show "execute_guard_action rt post atype actor ctx force reason src policy None =
        Inr \<lparr>success = False,
             message = msg_failed (normalized_action rt atype) (msg_auth_failed (status_code resp)),
             action_type = normalized_action rt atype, target_id = Some t, source = src,
             executed = False, dry_run = False\<rparr>"
    unfolding gates_pass_result [OF g] by (simp add: rejection_def)
qed

theorem auth_failure_witness:
  "gates_pass ascii_runtime (lit ''leave'') (lit ''dev1'')
     (build_action_context True (Some (lit ''123'')) None) False (lit ''abuse'')
     (default_policy\<lparr>mode := lit ''normal''\<rparr>) (lit ''123'') \<and>
   \<not> get_effective_dry_run (default_dry_run (default_policy\<lparr>mode := lit ''normal''\<rparr>))
       (dry_run_override (default_policy\<lparr>mode := lit ''normal''\<rparr>)) \<and>
   call_napcat ascii_runtime (mock_transport (Inr \<lparr>status_code = 403, body_json = Inl ValueError\<rparr>))
     (lit ''127.0.0.1'') (lit ''3000'') [] (lit ''set_group_leave'')
     [(lit ''group_id'', JStr (lit ''123'')), (lit ''is_dismiss'', JBool False)] =
     Inr (False,
          lit ''NapCat '' @ [37492, 26435, 22833, 36133] @ lit ''(HTTP '' @ lit ''403'' @ lit '')'',
          None) \<and>
   execute_guard_action ascii_runtime
     (mock_transport (Inr \<lparr>status_code = 403, body_json = Inl ValueError\<rparr>)) (lit ''leave'')
     (lit ''dev1'') (build_action_context True (Some (lit ''123'')) None) False (lit ''abuse'')
     (lit ''planner'') (default_policy\<lparr>mode := lit ''normal''\<rparr>) None =
     Inr \<lparr>success = False, message = msg_failed (lit ''leave'') (msg_auth_failed 403),
          action_type = lit ''leave'', target_id = Some (lit ''123''), source = lit ''planner'',
          executed = False, dry_run = False\<rparr>"
proof -
  let ?p = "default_policy\<lparr>mode := lit ''normal''\<rparr>"
  let ?resp = "\<lparr>status_code = 403, body_json = Inl ValueError\<rparr>"
  have d: "\<not> get_effective_dry_run (default_dry_run ?p) (dry_run_override ?p)"
    by (simp add: get_effective_dry_run_def default_policy_def)
  have s: "str_int 403 = lit ''403''"
    by (simp add: str_int_def str_nat.simps lit_def)
  from auth_failure [where rt = ascii_runtime and atype = "lit ''leave''"
      and actor = "lit ''dev1''" and ctx = "build_action_context True (Some (lit ''123'')) None"
      and force = False and reason = "lit ''abuse''" and policy = ?p and t = "lit ''123''"
      and post = "mock_transport (Inr ?resp)" and src = "lit ''planner''" and resp = ?resp
      and host = "lit ''127.0.0.1''" and port = "lit ''3000''" and token = "[]"
      and action = "lit ''set_group_leave''"
      and payload = "[(lit ''group_id'', JStr (lit ''123'')), (lit ''is_dismiss'', JBool False)]"]
    example_gates(1) d
  show ?thesis
    by (simp add: mock_transport_def example_simps s)
qed

text \<open>
  C9. When the response has a status in 200..299 and a JSON object whose \<open>status\<close> field is
  the string "ok", the invoker returns true, "ok" and the object. When the remote call
  returns true, the evaluator returns success true, executed true, dry-run false. Executed
  is true on this path only: a result with executed true has success true and dry-run
  false, all gates passed, dry-run was off and the remote call returned true; and the
  built-in invoker returns true only for such a response.
\<close>

theorem remote_ok:
  "(post (napcat_url host port action) payload (napcat_headers token) = Inr resp \<and>
    200 \<le> status_code resp \<and> status_code resp < 300 \<and> body_json resp = Inr (JDict raw) \<and>
    map_of raw (lit ''status'') = Some (JStr (lit ''ok'')) \<longrightarrow>
      call_napcat rt post host port token action payload = Inr (True, lit ''ok'', Some raw)) \<and>
   (gates_pass rt atype actor ctx force reason policy t \<and>
    \<not> get_effective_dry_run (default_dry_run policy) (dry_run_override policy) \<and>
    remote_call rt post c policy (normalized_action rt atype) t = Inr (True, detail, raw') \<longrightarrow>
      execute_guard_action rt post atype actor ctx force reason src policy c =
        Inr \<lparr>success = True, message = msg_done (normalized_action rt atype) t,
             action_type = normalized_action rt atype, target_id = Some t, source = src,
             executed = True, dry_run = False\<rparr>) \<and>
   (execute_guard_action rt post atype actor ctx force reason src policy c = Inr r \<and> executed r \<longrightarrow>
      success r \<and> \<not> dry_run r \<and>
      (\<exists>t detail raw'. gates_pass rt atype actor ctx force reason policy t \<and>
         \<not> get_effective_dry_run (default_dry_run policy) (dry_run_override policy) \<and>
         remote_call rt post c policy (normalized_action rt atype) t = Inr (True, detail, raw'))) \<and>
   (call_napcat rt post host port token action payload = Inr (True, detail, raw') \<longrightarrow>
      (\<exists>resp raw. post (napcat_url host port action) payload (napcat_headers token) = Inr resp \<and>
         200 \<le> status_code resp \<and> status_code resp < 300 \<and> body_json resp = Inr (JDict raw) \<and>
         map_of raw (lit ''status'') = Some (JStr (lit ''ok'')) \<and>
         detail = lit ''ok'' \<and> raw' = Some raw))"
proof (intro conjI impI)
  assume "post (napcat_url host port action) payload (napcat_headers token) = Inr resp \<and>
    200 \<le> status_code resp \<and> status_code resp < 300 \<and> body_json resp = Inr (JDict raw) \<and>
    map_of raw (lit ''status'') = Some (JStr (lit ''ok''))"
  then show "call_napcat rt post host port token action payload = Inr (True, lit ''ok'', Some raw)"
    unfolding call_napcat_ok interpret_response_ok by blast
next
  assume h: "gates_pass rt atype actor ctx force reason policy t \<and>
    \<not> get_effective_dry_run (default_dry_run policy) (dry_run_override policy) \<and>
    remote_call rt post c policy (normalized_action rt atype) t = Inr (True, detail, raw')"
  then have g: "gates_pass rt atype actor ctx force reason policy t" by simp
  from h show "execute_guard_action rt post atype actor ctx force reason src policy c =
        Inr \<lparr>success = True, message = msg_done (normalized_action rt atype) t,
             action_type = normalized_action rt atype, target_id = Some t, source = src,
             executed = True, dry_run = False\<rparr>"
    unfolding gates_pass_result [OF g] by simp
next
  assume h: "execute_guard_action rt post atype actor ctx force reason src policy c = Inr r \<and>
    executed r"
  have ng: "\<not> gate_rejects rt atype actor ctx force reason policy"
  proof
    assume "gate_rejects rt atype actor ctx force reason policy"
    from gate_rejects_result [OF this, of post src c] h show False
      by (auto simp: rejection_def)
  qed
  then obtain t where g: "gates_pass rt atype actor ctx force reason policy t"
    by (auto simp: gate_rejects_def gates_pass_def)
  from h have e: "execute_guard_action rt post atype actor ctx force reason src policy c = Inr r"
    and x: "executed r" by simp_all
  from e x have nd: "\<not> get_effective_dry_run (default_dry_run policy) (dry_run_override policy)"
    unfolding gates_pass_result [OF g] by (auto split: if_splits)
  with e x obtain detail raw' where
    rc: "remote_call rt post c policy (normalized_action rt atype) t = Inr (True, detail, raw')"
    unfolding gates_pass_result [OF g]
    by (auto simp: rejection_def split: sum.splits if_splits)
  from e nd rc show "success r" "\<not> dry_run r"
    unfolding gates_pass_result [OF g] by auto
  from g nd rc show "\<exists>t detail raw'. gates_pass rt atype actor ctx force reason policy t \<and>
         \<not> get_effective_dry_run (default_dry_run policy) (dry_run_override policy) \<and>
         remote_call rt post c policy (normalized_action rt atype) t = Inr (True, detail, raw')"
    by blast
next
  assume "call_napcat rt post host port token action payload = Inr (True, detail, raw')"
  then show "\<exists>resp raw. post (napcat_url host port action) payload (napcat_headers token) = Inr resp \<and>
         200 \<le> status_code resp \<and> status_code resp < 300 \<and> body_json resp = Inr (JDict raw) \<and>
         map_of raw (lit ''status'') = Some (JStr (lit ''ok'')) \<and>
         detail = lit ''ok'' \<and> raw' = Some raw"
    unfolding call_napcat_ok interpret_response_ok by blast
qed

theorem remote_ok_witness:
  "gates_pass ascii_runtime (lit ''leave'') (lit ''dev1'')
     (build_action_context True (Some (lit ''123'')) None) False (lit ''abuse'')
     (default_policy\<lparr>mode := lit ''normal''\<rparr>) (lit ''123'') \<and>
   \<not> get_effective_dry_run (default_dry_run (default_policy\<lparr>mode := lit ''normal''\<rparr>))
       (dry_run_override (default_policy\<lparr>mode := lit ''normal''\<rparr>)) \<and>
   call_napcat ascii_runtime
     (mock_transport
        (Inr \<lparr>status_code = 200, body_json = Inr (JDict [(lit ''status'', JStr (lit ''ok''))])\<rparr>))
     (lit ''127.0.0.1'') (lit ''3000'') [] (lit ''set_group_leave'')
     [(lit ''group_id'', JStr (lit ''123'')), (lit ''is_dismiss'', JBool False)] =
     Inr (True, lit ''ok'', Some [(lit ''status'', JStr (lit ''ok''))]) \<and>
   execute_guard_action ascii_runtime
     (mock_transport
        (Inr \<lparr>status_code = 200, body_json = Inr (JDict [(lit ''status'', JStr (lit ''ok''))])\<rparr>))
     (lit ''leave'') (lit ''dev1'') (build_action_context True (Some (lit ''123'')) None) False
     (lit ''abuse'') (lit ''planner'') (default_policy\<lparr>mode := lit ''normal''\<rparr>) None =
     Inr \<lparr>success = True, message = msg_done (lit ''leave'') (lit ''123''),
          action_type = lit ''leave'', target_id = Some (lit ''123''), source = lit ''planner'',
          executed = True, dry_run = False\<rparr> \<and>
   (\<exists>t detail raw'.
      remote_call ascii_runtime
        (mock_transport
           (Inr \<lparr>status_code = 200, body_json = Inr (JDict [(lit ''status'', JStr (lit ''ok''))])\<rparr>))
        None (default_policy\<lparr>mode := lit ''normal''\<rparr>) (lit ''leave'') t =
      Inr (True, detail, raw'))"
proof -
  let ?p = "default_policy\<lparr>mode := lit ''normal''\<rparr>"
  let ?raw = "[(lit ''status'', JStr (lit ''ok''))]"
  let ?resp = "\<lparr>status_code = 200, body_json = Inr (JDict ?raw)\<rparr>"
  let ?payload = "[(lit ''group_id'', JStr (lit ''123'')), (lit ''is_dismiss'', JBool False)]"
  note inst = remote_ok [where rt = ascii_runtime and atype = "lit ''leave''"
      and actor = "lit ''dev1''" and ctx = "build_action_context True (Some (lit ''123'')) None"
      and force = False and reason = "lit ''abuse''" and policy = ?p and t = "lit ''123''"
      and post = "mock_transport (Inr ?resp)" and src = "lit ''planner''" and resp = ?resp
      and host = "lit ''127.0.0.1''" and port = "lit ''3000''" and token = "[]"
      and action = "lit ''set_group_leave''" and payload = ?payload and raw = ?raw and c = None
      and detail = "lit ''ok''" and raw' = "Some ?raw"
      and r = "\<lparr>success = True, message = msg_done (lit ''leave'') (lit ''123''),
          action_type = lit ''leave'', target_id = Some (lit ''123''), source = lit ''planner'',
          executed = True, dry_run = False\<rparr>"]
  have d: "\<not> get_effective_dry_run (default_dry_run ?p) (dry_run_override ?p)"
    by (simp add: get_effective_dry_run_def default_policy_def)
  have h: "mock_transport (Inr ?resp) (napcat_url (lit ''127.0.0.1'') (lit ''3000'')
       (lit ''set_group_leave'')) ?payload (napcat_headers []) = Inr ?resp"
    "200 \<le> status_code ?resp" "status_code ?resp < 300" "body_json ?resp = Inr (JDict ?raw)"
    "map_of ?raw (lit ''status'') = Some (JStr (lit ''ok''))"
    by (simp_all add: mock_transport_def)
  from inst h have call: "call_napcat ascii_runtime (mock_transport (Inr ?resp))
     (lit ''127.0.0.1'') (lit ''3000'') [] (lit ''set_group_leave'') ?payload =
     Inr (True, lit ''ok'', Some ?raw)"
    by blast
  then have rc: "remote_call ascii_runtime (mock_transport (Inr ?resp)) None ?p
      (normalized_action ascii_runtime (lit ''leave'')) (lit ''123'') =
      Inr (True, lit ''ok'', Some ?raw)"
    by (simp add: remote_call_def napcat_action_of_def payload_of_def default_policy_def
        example_simps)
  from inst example_gates(1) d rc
  have ex: "execute_guard_action ascii_runtime (mock_transport (Inr ?resp))
     (lit ''leave'') (lit ''dev1'') (build_action_context True (Some (lit ''123'')) None) False
     (lit ''abuse'') (lit ''planner'') ?p None =
     Inr \<lparr>success = True,
          message = msg_done (normalized_action ascii_runtime (lit ''leave'')) (lit ''123''),
          action_type = normalized_action ascii_runtime (lit ''leave''),
          target_id = Some (lit ''123''), source = lit ''planner'',
          executed = True, dry_run = False\<rparr>"
    by blast
  with inst have only: "\<exists>t detail raw'.
      gates_pass ascii_runtime (lit ''leave'') (lit ''dev1'')
        (build_action_context True (Some (lit ''123'')) None) False (lit ''abuse'') ?p t \<and>
      \<not> get_effective_dry_run (default_dry_run ?p) (dry_run_override ?p) \<and>
      remote_call ascii_runtime (mock_transport (Inr ?resp)) None ?p
        (normalized_action ascii_runtime (lit ''leave'')) t = Inr (True, detail, raw')"
    by (simp add: example_simps)
  from example_gates(1) d call ex only show ?thesis
    by (simp add: example_simps) blast
qed

text \<open>
  C10. A rejection at the action-type gate or at the cross-context gate carries no target
  id. A rejection at the reason-length gate or at the force gate carries the resolved
  target: the group id for "leave", the private user id for "delete".
\<close>

theorem rejection_targets:
  "(normalized_action rt atype \<notin> {lit ''leave'', lit ''delete''} \<or>
    (\<forall>t. \<not> resolves_to (normalized_action rt atype) ctx t) \<longrightarrow>
      (\<exists>r. execute_guard_action rt post atype actor ctx force reason src policy c = Inr r \<and>
           \<not> success r \<and> target_id r = None)) \<and>
   (resolves_to (normalized_action rt atype) ctx t \<and> reason_too_short rt policy reason \<longrightarrow>
      (\<exists>r. execute_guard_action rt post atype actor ctx force reason src policy c = Inr r \<and>
           \<not> success r \<and> message r = msg_reason_too_short (min_reason_length policy) \<and>
           target_id r = Some t)) \<and>
   (resolves_to (normalized_action rt atype) ctx t \<and> \<not> reason_too_short rt policy reason \<and>
    force_refused policy actor force \<longrightarrow>
      (\<exists>r. execute_guard_action rt post atype actor ctx force reason src policy c = Inr r \<and>
           \<not> success r \<and> message r \<in> {msg_force_disabled, msg_force_whitelist} \<and>
           target_id r = Some t)) \<and>
   (resolves_to (normalized_action rt atype) ctx t \<longrightarrow>
      (normalized_action rt atype = lit ''leave'' \<longrightarrow> group_id ctx = Some t) \<and>
      (normalized_action rt atype = lit ''delete'' \<longrightarrow> private_user_id ctx = Some t))"
proof (intro conjI impI)
  assume "normalized_action rt atype \<notin> {lit ''leave'', lit ''delete''} \<or>
    (\<forall>t. \<not> resolves_to (normalized_action rt atype) ctx t)"
  then consider "normalized_action rt atype \<notin> {lit ''leave'', lit ''delete''}"
    | "normalized_action rt atype \<in> {lit ''leave'', lit ''delete''}"
      "\<forall>t. \<not> resolves_to (normalized_action rt atype) ctx t"
    by blast
  then show "\<exists>r. execute_guard_action rt post atype actor ctx force reason src policy c = Inr r \<and>
           \<not> success r \<and> target_id r = None"
  proof cases
    case 1
    then show ?thesis
      using unsupported_result [of rt atype post actor ctx force reason src policy c]
      by (simp add: rejection_def)
  next
    case 2
    then show ?thesis
      using unresolved_result [of rt atype ctx post actor force reason src policy c]
      by (auto simp: rejection_def)
  qed
next
  assume h: "resolves_to (normalized_action rt atype) ctx t \<and> reason_too_short rt policy reason"
  then have t: "resolves_to (normalized_action rt atype) ctx t" by simp
  from h show "\<exists>r. execute_guard_action rt post atype actor ctx force reason src policy c = Inr r \<and>
           \<not> success r \<and> message r = msg_reason_too_short (min_reason_length policy) \<and>
           target_id r = Some t"
    unfolding resolved_result [OF t] by (simp add: too_short_result rejection_def)
next
  assume h: "resolves_to (normalized_action rt atype) ctx t \<and> \<not> reason_too_short rt policy reason \<and>
    force_refused policy actor force"
  then have t: "resolves_to (normalized_action rt atype) ctx t"
    and r: "\<not> reason_too_short rt policy reason" and f: "force" by (simp_all add: force_refused_def)
  show "\<exists>r. execute_guard_action rt post atype actor ctx force reason src policy c = Inr r \<and>
           \<not> success r \<and> message r \<in> {msg_force_disabled, msg_force_whitelist} \<and>
           target_id r = Some t"
  proof (cases "allow_force policy")
    case True
    with h have "actor \<notin> developer_whitelist policy" by (simp add: force_refused_def)
    then show ?thesis
      unfolding resolved_result [OF t]
      by (simp add: force_whitelist_result [OF r f True] rejection_def)
  next
    case False
    then show ?thesis
      unfolding resolved_result [OF t]
      by (simp add: force_disabled_result [OF r f False] rejection_def)
  qed
next
  assume "resolves_to (normalized_action rt atype) ctx t" "normalized_action rt atype = lit ''leave''"
  then show "group_id ctx = Some t"
    using leave_neq_delete by (auto simp: resolves_to_def)
next
  assume "resolves_to (normalized_action rt atype) ctx t" "normalized_action rt atype = lit ''delete''"
  then show "private_user_id ctx = Some t"
    using leave_neq_delete by (auto simp: resolves_to_def)
qed

theorem rejection_targets_witness:
  "normalized_action ascii_runtime (lit ''FOO'') \<notin> {lit ''leave'', lit ''delete''} \<and>
   (\<exists>r. execute_guard_action ascii_runtime (mock_transport (Inl TimeoutException)) (lit ''FOO'')
          (lit ''dev1'') (build_action_context True (Some (lit ''123'')) None) False (lit ''abuse'')
          (lit ''command'') default_policy None = Inr r \<and> \<not> success r \<and> target_id r = None) \<and>
   resolves_to (normalized_action ascii_runtime (lit ''delete''))
     (build_action_context False None (Some (lit ''u1''))) (lit ''u1'') \<and>
   reason_too_short ascii_runtime default_policy (lit ''no'') \<and>
   (\<exists>r. execute_guard_action ascii_runtime (mock_transport (Inl TimeoutException)) (lit ''delete'')
          (lit ''dev1'') (build_action_context False None (Some (lit ''u1''))) False (lit ''no'')
          (lit ''command'') default_policy None = Inr r \<and> \<not> success r \<and>
        message r = msg_reason_too_short (min_reason_length default_policy) \<and>
        target_id r = Some (lit ''u1'')) \<and>
   \<not> reason_too_short ascii_runtime (default_policy\<lparr>allow_force := False\<rparr>) (lit ''abuse'') \<and>
   force_refused (default_policy\<lparr>allow_force := False\<rparr>) (lit ''dev1'') True \<and>
   (\<exists>r. execute_guard_action ascii_runtime (mock_transport (Inl TimeoutException)) (lit ''delete'')
          (lit ''dev1'') (build_action_context False None (Some (lit ''u1''))) True (lit ''abuse'')
          (lit ''command'') (default_policy\<lparr>allow_force := False\<rparr>) None = Inr r \<and>
        \<not> success r \<and> message r \<in> {msg_force_disabled, msg_force_whitelist} \<and>
        target_id r = Some (lit ''u1'')) \<and>
   private_user_id (build_action_context False None (Some (lit ''u1''))) = Some (lit ''u1'')"
proof -
  have n: "normalized_action ascii_runtime (lit ''FOO'') = lit ''foo''"
    by (simp add: normalized_action_def or_str_Nil lit_def strip_def isspace_def lower_def
        ascii_lower_def)
  have u: "normalized_action ascii_runtime (lit ''FOO'') \<notin> {lit ''leave'', lit ''delete''}"
    unfolding n by (simp add: lit_def)
  have t: "resolves_to (normalized_action ascii_runtime (lit ''delete''))
     (build_action_context False None (Some (lit ''u1''))) (lit ''u1'')"
    by (simp add: example_simps)
  have s: "reason_too_short ascii_runtime default_policy (lit ''no'')"
    "\<not> reason_too_short ascii_runtime (default_policy\<lparr>allow_force := False\<rparr>) (lit ''abuse'')"
    by (simp_all add: reason_too_short_def example_simps default_policy_def)
  have f: "force_refused (default_policy\<lparr>allow_force := False\<rparr>) (lit ''dev1'') True"
    by (simp add: force_refused_def)
  have d: "normalized_action ascii_runtime (lit ''delete'') = lit ''delete''"
    by (simp add: example_simps)
  note i1 = rejection_targets [where rt = ascii_runtime and atype = "lit ''FOO''"
      and actor = "lit ''dev1''" and ctx = "build_action_context True (Some (lit ''123'')) None"
      and force = False and reason = "lit ''abuse''" and policy = default_policy
      and post = "mock_transport (Inl TimeoutException)" and src = "lit ''command''" and c = None]
  note i2 = rejection_targets [where rt = ascii_runtime and atype = "lit ''delete''"
      and actor = "lit ''dev1''" and ctx = "build_action_context False None (Some (lit ''u1''))"
      and force = False and reason = "lit ''no''" and policy = default_policy and t = "lit ''u1''"
      and post = "mock_transport (Inl TimeoutException)" and src = "lit ''command''" and c = None]
  note i3 = rejection_targets [where rt = ascii_runtime and atype = "lit ''delete''"
      and actor = "lit ''dev1''" and ctx = "build_action_context False None (Some (lit ''u1''))"
      and force = True and reason = "lit ''abuse''"
      and policy = "default_policy\<lparr>allow_force := False\<rparr>" and t = "lit ''u1''"
      and post = "mock_transport (Inl TimeoutException)" and src = "lit ''command''" and c = None]
  from i1 u have c1: "\<exists>r. execute_guard_action ascii_runtime (mock_transport (Inl TimeoutException))
          (lit ''FOO'') (lit ''dev1'') (build_action_context True (Some (lit ''123'')) None) False
          (lit ''abuse'') (lit ''command'') default_policy None = Inr r \<and> \<not> success r \<and>
          target_id r = None"
    by blast
  from i2 t s(1) have c2: "\<exists>r. execute_guard_action ascii_runtime
          (mock_transport (Inl TimeoutException)) (lit ''delete'')
          (lit ''dev1'') (build_action_context False None (Some (lit ''u1''))) False (lit ''no'')
          (lit ''command'') default_policy None = Inr r \<and> \<not> success r \<and>
        message r = msg_reason_too_short (min_reason_length default_policy) \<and>
        target_id r = Some (lit ''u1'')"
    by blast
  from i3 t s(2) f have c3: "\<exists>r. execute_guard_action ascii_runtime
          (mock_transport (Inl TimeoutException)) (lit ''delete'')
          (lit ''dev1'') (build_action_context False None (Some (lit ''u1''))) True (lit ''abuse'')
          (lit ''command'') (default_policy\<lparr>allow_force := False\<rparr>) None = Inr r \<and>
        \<not> success r \<and> message r \<in> {msg_force_disabled, msg_force_whitelist} \<and>
        target_id r = Some (lit ''u1'')"
    by blast
  from i2 t d have c4:
    "private_user_id (build_action_context False None (Some (lit ''u1''))) = Some (lit ''u1'')"
    by blast
  from u c1 t s c2 f c3 c4 show ?thesis by blast
qed

end
